theory Spec2Isabelle
  imports Main
begin

section \<open>Time\<close>

text \<open>
  A Go \<^verbatim>\<open>time.Time\<close> is an instant in nanoseconds since the Unix epoch and a
  \<^verbatim>\<open>time.Duration\<close> a number of nanoseconds. Both are unbounded integers here: no
  claim depends on the 64-bit range of a duration.
\<close>

type_synonym time = int
type_synonym duration = int

definition Second :: duration where
  "Second = 1000000000"

definition Minute :: duration where
  "Minute = 60 * Second"

definition Hour :: duration where
  "Hour = 60 * Minute"

text \<open>\<^verbatim>\<open>t.Unix()\<close>: whole seconds since the epoch, rounded down.\<close>

definition Unix :: "time \<Rightarrow> int" where
  "Unix t = t div Second"

text \<open>\<^verbatim>\<open>t.After(u)\<close> and \<^verbatim>\<open>t.Before(u)\<close>.\<close>

definition After :: "time \<Rightarrow> time \<Rightarrow> bool" where
  "After t u = (u < t)"

definition Before :: "time \<Rightarrow> time \<Rightarrow> bool" where
  "Before t u = (t < u)"

section \<open>Rate limiter (middleware/auth.go)\<close>

text \<open>
  \<^verbatim>\<open>type RateLimiter struct { mu; requests map[string][]time.Time; limit int; window }\<close>.
  The mutex makes each check one atomic step, which is what a function from state to
  state is.
\<close>

record RateLimiter =
  requests :: "string \<rightharpoonup> time list"
  limit :: int
  window :: duration

definition NewRateLimiter :: "int \<Rightarrow> duration \<Rightarrow> RateLimiter" where
  "NewRateLimiter l w = \<lparr>requests = Map.empty, limit = l, window = w\<rparr>"

text \<open>\<^verbatim>\<open>rl.requests[ip]\<close>: a missing key reads as the nil slice.\<close>

definition requests_at :: "RateLimiter \<Rightarrow> string \<Rightarrow> time list" where
  "requests_at rl ip = (case requests rl ip of None \<Rightarrow> [] | Some ts \<Rightarrow> ts)"

text \<open>
  The loop \<^verbatim>\<open>for _, t := range rl.requests[ip] { if t.After(windowStart) { valid = append(valid, t) } }\<close>,
  with \<open>valid\<close> as the accumulator.
\<close>

fun remove_expired :: "time \<Rightarrow> time list \<Rightarrow> time list \<Rightarrow> time list" where
  "remove_expired windowStart [] valid = valid"
| "remove_expired windowStart (t # ts) valid =
     remove_expired windowStart ts (if After t windowStart then valid @ [t] else valid)"

text \<open>
  The critical section of \<^verbatim>\<open>Middleware\<close> (between Lock and Unlock): the flag says
  whether the request goes on to the next handler, the limiter is the updated one.
\<close>

definition Middleware_check :: "RateLimiter \<Rightarrow> time \<Rightarrow> string \<Rightarrow> bool \<times> RateLimiter" where
  "Middleware_check rl now ip =
     (let windowStart = now - window rl;
          valid = remove_expired windowStart (requests_at rl ip) [];
          rl1 = rl\<lparr>requests := (requests rl)(ip \<mapsto> valid)\<rparr>
      in if int (length valid) \<ge> limit rl1 then (False, rl1)
         else (True, rl1\<lparr>requests := (requests rl1)(ip \<mapsto> requests_at rl1 ip @ [now])\<rparr>))"

text \<open>A sequence of checks, each given by the instant and the client key.\<close>

fun checks :: "RateLimiter \<Rightarrow> (time \<times> string) list \<Rightarrow> RateLimiter" where
  "checks rl [] = rl"
| "checks rl ((now, ip) # cs) = checks (snd (Middleware_check rl now ip)) cs"

section \<open>The JWT library (github.com/golang-jwt/jwt/v5)\<close>

text \<open>
  The handlers call three functions of the library: \<^verbatim>\<open>jwt.NewWithClaims\<close>,
  \<^verbatim>\<open>token.SignedString\<close> and \<^verbatim>\<open>jwt.Parse\<close>. The library is not part of the
  repository; it is modelled symbolically. A token is its signing method, its claim
  set and its signature. The compact serialisation (three base64url segments in the
  library) is a length-prefixed text, and the MAC of a message under a key is the pair
  of both, so that a signature verifies under exactly the key that made it. JSON
  numbers are integers (the service only writes whole seconds).
\<close>

datatype jval = JString string | JNumber int | JOther

type_synonym MapClaims = "(string \<times> jval) list"

datatype SigningMethod =
    SigningMethodHS256 | SigningMethodHS384 | SigningMethodHS512
  | SigningMethodOther string

datatype jwt_error =
    ErrTokenMalformed | ErrTokenUnverifiable | ErrTokenSignatureInvalid
  | ErrTokenExpired | ErrTokenNotValidYet | ErrInvalidType
  | ErrSignatureInvalid | ErrInvalidKeyType

record jwt_Token =
  Method :: SigningMethod
  TokenClaims :: MapClaims
  Signature :: string
  Valid :: bool

text \<open>The type assertion \<^verbatim>\<open>t.Method.(*jwt.SigningMethodHMAC)\<close>.\<close>

fun is_SigningMethodHMAC :: "SigningMethod \<Rightarrow> bool" where
  "is_SigningMethodHMAC (SigningMethodOther a) = False"
| "is_SigningMethodHMAC m = True"

subsection \<open>Serialisation\<close>

definition enc_nat :: "nat \<Rightarrow> string" where
  "enc_nat n = replicate n (CHR ''1'') @ [CHR ''0'']"

fun dec_nat :: "string \<Rightarrow> (nat \<times> string) option" where
  "dec_nat [] = None"
| "dec_nat (c # cs) =
     (if c = CHR ''0'' then Some (0, cs)
      else if c = CHR ''1'' then
        (case dec_nat cs of None \<Rightarrow> None | Some (n, rest) \<Rightarrow> Some (Suc n, rest))
      else None)"

definition enc_str :: "string \<Rightarrow> string" where
  "enc_str s = enc_nat (length s) @ s"

definition dec_str :: "string \<Rightarrow> (string \<times> string) option" where
  "dec_str z =
     (case dec_nat z of None \<Rightarrow> None
      | Some (n, rest) \<Rightarrow> if n \<le> length rest then Some (take n rest, drop n rest) else None)"

definition enc_int :: "int \<Rightarrow> string" where
  "enc_int i = (if i < 0 then CHR ''-'' # enc_nat (nat (- i)) else CHR ''+'' # enc_nat (nat i))"

fun dec_int :: "string \<Rightarrow> (int \<times> string) option" where
  "dec_int [] = None"
| "dec_int (c # cs) =
     (if c = CHR ''+'' then
        (case dec_nat cs of None \<Rightarrow> None | Some (n, rest) \<Rightarrow> Some (int n, rest))
      else if c = CHR ''-'' then
        (case dec_nat cs of None \<Rightarrow> None | Some (n, rest) \<Rightarrow> Some (- int n, rest))
      else None)"

fun enc_jval :: "jval \<Rightarrow> string" where
  "enc_jval (JString s) = CHR ''s'' # enc_str s"
| "enc_jval (JNumber i) = CHR ''n'' # enc_int i"
| "enc_jval JOther = [CHR ''o'']"

fun dec_jval :: "string \<Rightarrow> (jval \<times> string) option" where
  "dec_jval [] = None"
| "dec_jval (c # cs) =
     (if c = CHR ''s'' then
        (case dec_str cs of None \<Rightarrow> None | Some (s, rest) \<Rightarrow> Some (JString s, rest))
      else if c = CHR ''n'' then
        (case dec_int cs of None \<Rightarrow> None | Some (i, rest) \<Rightarrow> Some (JNumber i, rest))
      else if c = CHR ''o'' then Some (JOther, cs)
      else None)"

fun enc_entries :: "MapClaims \<Rightarrow> string" where
  "enc_entries [] = []"
| "enc_entries ((k, v) # kvs) = enc_str k @ enc_jval v @ enc_entries kvs"

fun dec_entries :: "nat \<Rightarrow> string \<Rightarrow> (MapClaims \<times> string) option" where
  "dec_entries 0 z = Some ([], z)"
| "dec_entries (Suc n) z =
     (case dec_str z of None \<Rightarrow> None
      | Some (k, z1) \<Rightarrow>
          (case dec_jval z1 of None \<Rightarrow> None
           | Some (v, z2) \<Rightarrow>
               (case dec_entries n z2 of None \<Rightarrow> None
                | Some (kvs, rest) \<Rightarrow> Some ((k, v) # kvs, rest))))"

definition enc_claims :: "MapClaims \<Rightarrow> string" where
  "enc_claims m = enc_nat (length m) @ enc_entries m"

definition dec_claims :: "string \<Rightarrow> (MapClaims \<times> string) option" where
  "dec_claims z = (case dec_nat z of None \<Rightarrow> None | Some (n, rest) \<Rightarrow> dec_entries n rest)"

fun enc_method :: "SigningMethod \<Rightarrow> string" where
  "enc_method SigningMethodHS256 = ''a''"
| "enc_method SigningMethodHS384 = ''b''"
| "enc_method SigningMethodHS512 = ''c''"
| "enc_method (SigningMethodOther a) = CHR ''x'' # enc_str a"

fun dec_method :: "string \<Rightarrow> (SigningMethod \<times> string) option" where
  "dec_method [] = None"
| "dec_method (c # cs) =
     (if c = CHR ''a'' then Some (SigningMethodHS256, cs)
      else if c = CHR ''b'' then Some (SigningMethodHS384, cs)
      else if c = CHR ''c'' then Some (SigningMethodHS512, cs)
      else if c = CHR ''x'' then
        (case dec_str cs of None \<Rightarrow> None | Some (a, rest) \<Rightarrow> Some (SigningMethodOther a, rest))
      else None)"

text \<open>The text that is signed: header and claims (\<^verbatim>\<open>token.SigningString\<close>).\<close>

definition SigningString :: "jwt_Token \<Rightarrow> string" where
  "SigningString t = enc_method (Method t) @ enc_claims (TokenClaims t)"

text \<open>The MAC of a signing string under a key, and its verification by recomputation.\<close>

definition hmac_Sign :: "SigningMethod \<Rightarrow> string \<Rightarrow> string \<Rightarrow> string" where
  "hmac_Sign m signingString key = enc_method m @ enc_str key @ signingString"

definition hmac_Verify :: "SigningMethod \<Rightarrow> string \<Rightarrow> string \<Rightarrow> string \<Rightarrow> bool" where
  "hmac_Verify m signingString sig key =
     (is_SigningMethodHMAC m \<and> sig = hmac_Sign m signingString key)"

definition jwt_NewWithClaims :: "SigningMethod \<Rightarrow> MapClaims \<Rightarrow> jwt_Token" where
  "jwt_NewWithClaims m claims =
     \<lparr>Method = m, TokenClaims = claims, Signature = [], Valid = False\<rparr>"

text \<open>
  \<^verbatim>\<open>token.SignedString(key)\<close> with a byte-slice key: an HMAC method always signs; any
  other method refuses a byte slice as its key.
\<close>

definition jwt_SignedString :: "jwt_Token \<Rightarrow> string \<Rightarrow> jwt_error + string" where
  "jwt_SignedString t key =
     (if is_SigningMethodHMAC (Method t)
      then Inr (SigningString t @ enc_str (hmac_Sign (Method t) (SigningString t) key))
      else Inl ErrInvalidKeyType)"

text \<open>Decoding the three parts of a compact token; nothing may follow the signature.\<close>

definition ParseUnverified :: "string \<Rightarrow> jwt_Token option" where
  "ParseUnverified tokenString =
     (case dec_method tokenString of None \<Rightarrow> None
      | Some (m, z1) \<Rightarrow>
          (case dec_claims z1 of None \<Rightarrow> None
           | Some (claims, z2) \<Rightarrow>
               (case dec_str z2 of None \<Rightarrow> None
                | Some (sig, rest) \<Rightarrow>
                    if rest = [] then
                      Some \<lparr>Method = m, TokenClaims = claims, Signature = sig, Valid = False\<rparr>
                    else None)))"

text \<open>
  The default claim validation of \<^verbatim>\<open>jwt.Parse\<close>: \<open>exp\<close> and \<open>nbf\<close> are checked when
  present (a numeric date of 0 counts as absent, a value that is not a number is an
  error); \<open>iat\<close> is not checked.
\<close>

definition verifyExpiresAt :: "time \<Rightarrow> MapClaims \<Rightarrow> jwt_error option" where
  "verifyExpiresAt now claims =
     (case map_of claims ''exp'' of
        None \<Rightarrow> None
      | Some (JNumber e) \<Rightarrow>
          if e = 0 then None
          else if Before now (e * Second) then None else Some ErrTokenExpired
      | Some _ \<Rightarrow> Some ErrInvalidType)"

definition verifyNotBefore :: "time \<Rightarrow> MapClaims \<Rightarrow> jwt_error option" where
  "verifyNotBefore now claims =
     (case map_of claims ''nbf'' of
        None \<Rightarrow> None
      | Some (JNumber n) \<Rightarrow>
          if n = 0 then None
          else if \<not> Before now (n * Second) then None else Some ErrTokenNotValidYet
      | Some _ \<Rightarrow> Some ErrInvalidType)"

definition Validate :: "time \<Rightarrow> MapClaims \<Rightarrow> jwt_error option" where
  "Validate now claims =
     (case verifyExpiresAt now claims of
        Some e \<Rightarrow> Some e
      | None \<Rightarrow> verifyNotBefore now claims)"

text \<open>
  \<^verbatim>\<open>jwt.Parse(tokenString, keyFunc)\<close> at the instant \<open>now\<close>: decode, ask the key
  function for the key, verify the signature, validate the claims. The token handed
  back without an error has \<open>Valid\<close> set. Its claims are always a
  \<^verbatim>\<open>jwt.MapClaims\<close>, so the type assertion \<^verbatim>\<open>token.Claims.(jwt.MapClaims)\<close> that each
  caller makes cannot fail, and the callers' branch for its failure has no
  counterpart below.
\<close>

definition jwt_Parse ::
  "time \<Rightarrow> string \<Rightarrow> (jwt_Token \<Rightarrow> jwt_error + string) \<Rightarrow> jwt_error + jwt_Token" where
  "jwt_Parse now tokenString keyFunc =
     (case ParseUnverified tokenString of
        None \<Rightarrow> Inl ErrTokenMalformed
      | Some token \<Rightarrow>
          (case keyFunc token of
             Inl e \<Rightarrow> Inl ErrTokenUnverifiable
           | Inr key \<Rightarrow>
               if \<not> hmac_Verify (Method token) (SigningString token) (Signature token) key
               then Inl ErrTokenSignatureInvalid
               else (case Validate now (TokenClaims token) of
                       Some e \<Rightarrow> Inl e
                     | None \<Rightarrow> Inr (token\<lparr>Valid := True\<rparr>))))"

section \<open>Models and configuration (models, config)\<close>

record Session =
  ID :: string
  UserID :: string
  Token :: string
  ExpiresAt :: time
  CreatedAt :: time

record LoginAttempt =
  AttemptID :: string
  AttemptEmail :: string
  Success :: bool
  IPAddress :: string
  AttemptCreatedAt :: time

record Claims =
  ClaimsUserID :: string
  ClaimsEmail :: string

record TokenPair =
  AccessToken :: string
  RefreshToken :: string

text \<open>The two fields of \<^verbatim>\<open>config.Config\<close> that the handlers read.\<close>

record Config =
  JWTSecret :: string
  JWTExpiry :: duration

section \<open>Repository (repository/auth.go)\<close>

text \<open>
  The state behind \<^verbatim>\<open>PostgresAuthRepository\<close>: the two tables of the migration, the
  Redis keyspace (each key with its value and, when it has one, the instant at which
  it expires), and whether each store answers. A store that does not answer makes
  every call to it return an error and change nothing. The log and the source of
  random identifiers are kept in the same state.
\<close>

datatype error = db_error | redis_error | constraint_error | session_not_found

record world =
  sessions :: "Session list"
  login_attempts :: "LoginAttempt list"
  redis :: "string \<rightharpoonup> string \<times> time option"
  db_up :: bool
  redis_up :: bool
  logs :: "string list"
  entropy :: "nat \<Rightarrow> string"
  drawn :: nat

definition log_Printf :: "string \<Rightarrow> world \<Rightarrow> world" where
  "log_Printf msg w = w\<lparr>logs := logs w @ [msg]\<rparr>"

text \<open>
  \<^verbatim>\<open>INSERT INTO sessions\<close>: refused when the primary key or the unique token is
  already in the table, or a \<^verbatim>\<open>VARCHAR(64)\<close> column is too short for its value.
\<close>

definition CreateSession :: "world \<Rightarrow> Session \<Rightarrow> error option \<times> world" where
  "CreateSession w session =
     (if \<not> db_up w then (Some db_error, w)
      else if ID session \<in> set (map ID (sessions w)) \<or>
              Token session \<in> set (map Token (sessions w)) \<or>
              64 < length (ID session) \<or> 64 < length (UserID session)
      then (Some constraint_error, w)
      else (None, w\<lparr>sessions := sessions w @ [session]\<rparr>))"

text \<open>\<^verbatim>\<open>SELECT ... FROM sessions WHERE token = $1 AND expires_at > NOW()\<close>, first row.\<close>

definition GetSessionByToken :: "world \<Rightarrow> time \<Rightarrow> string \<Rightarrow> error + Session" where
  "GetSessionByToken w now token =
     (if \<not> db_up w then Inl db_error
      else (case filter (\<lambda>s. Token s = token \<and> ExpiresAt s > now) (sessions w) of
              [] \<Rightarrow> Inl session_not_found
            | s # rest \<Rightarrow> Inr s))"

definition DeleteSession :: "world \<Rightarrow> string \<Rightarrow> error option \<times> world" where
  "DeleteSession w token =
     (if \<not> db_up w then (Some db_error, w)
      else (None, w\<lparr>sessions := filter (\<lambda>s. Token s \<noteq> token) (sessions w)\<rparr>))"

definition DeleteSessionsByUserID :: "world \<Rightarrow> string \<Rightarrow> error option \<times> world" where
  "DeleteSessionsByUserID w userID =
     (if \<not> db_up w then (Some db_error, w)
      else (None, w\<lparr>sessions := filter (\<lambda>s. UserID s \<noteq> userID) (sessions w)\<rparr>))"

definition RecordLoginAttempt :: "world \<Rightarrow> LoginAttempt \<Rightarrow> error option \<times> world" where
  "RecordLoginAttempt w attempt =
     (if \<not> db_up w then (Some db_error, w)
      else if AttemptID attempt \<in> set (map AttemptID (login_attempts w)) \<or>
              64 < length (AttemptID attempt) \<or> 255 < length (AttemptEmail attempt) \<or>
              45 < length (IPAddress attempt)
      then (Some constraint_error, w)
      else (None, w\<lparr>login_attempts := login_attempts w @ [attempt]\<rparr>))"

text \<open>
  \<^verbatim>\<open>SELECT COUNT(*) FROM login_attempts WHERE email = $1 AND success = false AND created_at > $2\<close>.
  On an error the count that \<^verbatim>\<open>Scan\<close> did not write stays 0.
\<close>

definition GetRecentFailedAttempts :: "world \<Rightarrow> string \<Rightarrow> time \<Rightarrow> int \<times> error option" where
  "GetRecentFailedAttempts w email since =
     (if \<not> db_up w then (0, Some db_error)
      else (int (length (filter
              (\<lambda>a. AttemptEmail a = email \<and> \<not> Success a \<and> AttemptCreatedAt a > since)
              (login_attempts w))), None))"

subsection \<open>Redis\<close>

text \<open>
  \<^verbatim>\<open>SET key value\<close> with an expiration: go-redis sends a time to live only for a
  positive duration, otherwise the key does not expire. A key whose instant of expiry
  has come is gone.
\<close>

definition redis_Set :: "world \<Rightarrow> time \<Rightarrow> string \<Rightarrow> string \<Rightarrow> duration \<Rightarrow> error option \<times> world" where
  "redis_Set w now key val expiry =
     (if \<not> redis_up w then (Some redis_error, w)
      else (None, w\<lparr>redis := (redis w)(key \<mapsto> (val, if 0 < expiry then Some (now + expiry) else None))\<rparr>))"

definition redis_live :: "world \<Rightarrow> time \<Rightarrow> string \<Rightarrow> string option" where
  "redis_live w now key =
     (case redis w key of
        None \<Rightarrow> None
      | Some (val, None) \<Rightarrow> Some val
      | Some (val, Some deadline) \<Rightarrow> if now < deadline then Some val else None)"

definition redis_Exists :: "world \<Rightarrow> time \<Rightarrow> string \<Rightarrow> error + int" where
  "redis_Exists w now key =
     (if \<not> redis_up w then Inl redis_error
      else (case redis_live w now key of None \<Rightarrow> Inr 0 | Some val \<Rightarrow> Inr 1))"

definition redis_Get :: "world \<Rightarrow> time \<Rightarrow> string \<Rightarrow> error + string option" where
  "redis_Get w now key =
     (if \<not> redis_up w then Inl redis_error else Inr (redis_live w now key))"

definition redis_Del :: "world \<Rightarrow> string \<Rightarrow> error option \<times> world" where
  "redis_Del w key =
     (if \<not> redis_up w then (Some redis_error, w)
      else (None, w\<lparr>redis := (redis w)(key := None)\<rparr>))"

definition blacklistPrefix :: string where
  "blacklistPrefix = ''blacklist:''"

definition BlacklistToken :: "world \<Rightarrow> time \<Rightarrow> string \<Rightarrow> duration \<Rightarrow> error option \<times> world" where
  "BlacklistToken w now token expiry = redis_Set w now (blacklistPrefix @ token) ''1'' expiry"

definition IsTokenBlacklisted :: "world \<Rightarrow> time \<Rightarrow> string \<Rightarrow> bool \<times> error option" where
  "IsTokenBlacklisted w now token =
     (case redis_Exists w now (blacklistPrefix @ token) of
        Inl err \<Rightarrow> (False, Some err)
      | Inr val \<Rightarrow> (val > 0, None))"

definition sessionCachePrefix :: string where
  "sessionCachePrefix = ''session:''"

definition CacheSession :: "world \<Rightarrow> time \<Rightarrow> string \<Rightarrow> Session \<Rightarrow> duration \<Rightarrow> error option \<times> world" where
  "CacheSession w now token session expiry =
     redis_Set w now (sessionCachePrefix @ token) (UserID session) expiry"

definition InvalidateCachedSession :: "world \<Rightarrow> string \<Rightarrow> error option \<times> world" where
  "InvalidateCachedSession w token = redis_Del w (sessionCachePrefix @ token)"

section \<open>HTTP requests and responses\<close>

text \<open>
  What the handlers read of a request: the method, the \<^verbatim>\<open>Authorization\<close> header
  (empty when absent), the remote address, the body as \<^verbatim>\<open>json.Decode\<close> sees it
  (\<open>None\<close> when decoding fails, otherwise the string members of the object; a member
  that is missing leaves the empty string in the struct), and the value stored in the
  request context under \<^verbatim>\<open>ClaimsContextKey\<close>.
\<close>

record Request =
  ReqMethod :: string
  Authorization :: string
  RemoteAddr :: string
  Body :: "(string \<times> string) list option"
  ctx_claims :: "Claims option"

datatype body =
    ErrorResponse string
  | TokenPairBody TokenPair
  | TokenValidationResponse bool string string
  | MessageBody string
  | PlainText string

type_synonym Response = "nat \<times> body"

type_synonym Handler = "time \<Rightarrow> Request \<Rightarrow> world \<Rightarrow> Response \<times> world"

definition writeJSON :: "nat \<Rightarrow> body \<Rightarrow> Response" where
  "writeJSON status v = (status, v)"

definition writeError :: "nat \<Rightarrow> string \<Rightarrow> Response" where
  "writeError status msg = writeJSON status (ErrorResponse msg)"

definition http_Error :: "string \<Rightarrow> nat \<Rightarrow> Response" where
  "http_Error text status = (status, PlainText text)"

definition json_field :: "(string \<times> string) list \<Rightarrow> string \<Rightarrow> string" where
  "json_field obj key = (case map_of obj key of None \<Rightarrow> [] | Some v \<Rightarrow> v)"

definition StatusOK :: nat where "StatusOK = 200"
definition StatusBadRequest :: nat where "StatusBadRequest = 400"
definition StatusUnauthorized :: nat where "StatusUnauthorized = 401"
definition StatusMethodNotAllowed :: nat where "StatusMethodNotAllowed = 405"
definition StatusTooManyRequests :: nat where "StatusTooManyRequests = 429"
definition StatusInternalServerError :: nat where "StatusInternalServerError = 500"

section \<open>Middleware (middleware/auth.go)\<close>

text \<open>\<^verbatim>\<open>strings.SplitN(s, " ", 2)\<close>: cut at the first space, if there is one.\<close>

definition SplitN2 :: "string \<Rightarrow> string list" where
  "SplitN2 s =
     (case dropWhile (\<lambda>c. c \<noteq> CHR '' '') s of
        [] \<Rightarrow> [s]
      | sp # rest \<Rightarrow> [takeWhile (\<lambda>c. c \<noteq> CHR '' '') s, rest])"

text \<open>
  \<^verbatim>\<open>strings.EqualFold\<close> against a word of the letters b, e, a, r: these letters fold
  only with their own upper case, so the comparison is the one of ASCII lower case.
\<close>

definition lower :: "char \<Rightarrow> char" where
  "lower c =
     (if 65 \<le> (of_char c :: nat) \<and> (of_char c :: nat) \<le> 90
      then char_of ((of_char c :: nat) + 32) else c)"

definition EqualFold :: "string \<Rightarrow> string \<Rightarrow> bool" where
  "EqualFold s t = (map lower s = map lower t)"

definition getString :: "MapClaims \<Rightarrow> string \<Rightarrow> string" where
  "getString m key = (case map_of m key of Some (JString val) \<Rightarrow> val | _ \<Rightarrow> [])"

text \<open>The key function that every call of \<^verbatim>\<open>jwt.Parse\<close> in the service passes.\<close>

definition keyFunc :: "string \<Rightarrow> jwt_Token \<Rightarrow> jwt_error + string" where
  "keyFunc secret t =
     (if \<not> is_SigningMethodHMAC (Method t) then Inl ErrSignatureInvalid else Inr secret)"

text \<open>
  \<^verbatim>\<open>JWTAuth(jwtSecret)(next)\<close>. The closure holds the secret and the next handler
  and nothing of the repository; the state is only handed through to \<open>next\<close>.
\<close>

definition JWTAuth :: "string \<Rightarrow> Handler \<Rightarrow> Handler" where
  \<open>JWTAuth jwtSecret next now r w =
     (let authHeader = Authorization r in
      if authHeader = [] then
        (http_Error ''{"error":"missing authorization header"}'' StatusUnauthorized, w)
      else
        let parts = SplitN2 authHeader in
        if length parts \<noteq> 2 \<or> \<not> EqualFold (parts ! 0) ''bearer'' then
          (http_Error ''{"error":"invalid authorization format"}'' StatusUnauthorized, w)
        else
          let tokenStr = parts ! 1 in
          (case jwt_Parse now tokenStr (keyFunc jwtSecret) of
             Inl err \<Rightarrow>
               (http_Error ''{"error":"invalid or expired token"}'' StatusUnauthorized, w)
           | Inr token \<Rightarrow>
               if \<not> Valid token then
                 (http_Error ''{"error":"invalid or expired token"}'' StatusUnauthorized, w)
               else
                 let mapClaims = TokenClaims token;
                     claims = \<lparr>ClaimsUserID = getString mapClaims ''user_id'',
                               ClaimsEmail = getString mapClaims ''email''\<rparr>
                 in next now (r\<lparr>ctx_claims := Some claims\<rparr>) w))\<close>

definition GetClaims :: "Request \<Rightarrow> Claims option" where
  "GetClaims r = ctx_claims r"

text \<open>
  \<^verbatim>\<open>rl.Middleware(next)\<close>: the check on the remote address, then the next handler or
  the refusal.
\<close>

definition Middleware ::
  "Handler \<Rightarrow> time \<Rightarrow> Request \<Rightarrow> RateLimiter \<times> world \<Rightarrow> Response \<times> RateLimiter \<times> world" where
  \<open>Middleware next now r st =
     (let rl = fst st; w = snd st; ip = RemoteAddr r in
      (case Middleware_check rl now ip of
         (False, rl') \<Rightarrow>
           (http_Error ''{"error":"rate limit exceeded"}'' StatusTooManyRequests, rl', w)
       | (True, rl') \<Rightarrow>
           (case next now r w of (resp, w') \<Rightarrow> (resp, rl', w'))))\<close>

section \<open>Handlers (handlers/auth.go)\<close>

text \<open>
  A handler runs at one instant \<open>now\<close>: every \<^verbatim>\<open>time.Now()\<close> of one call reads the
  same clock value. \<^verbatim>\<open>generateID\<close> draws the next identifier of the random source.
\<close>

definition generateID :: "world \<Rightarrow> string \<times> world" where
  "generateID w = (entropy w (drawn w), w\<lparr>drawn := Suc (drawn w)\<rparr>)"

definition getStringClaim :: "MapClaims \<Rightarrow> string \<Rightarrow> string" where
  "getStringClaim m key = (case map_of m key of Some (JString v) \<Rightarrow> v | _ \<Rightarrow> [])"

definition AuthHandler_issueTokens ::
  "Config \<Rightarrow> time \<Rightarrow> string \<Rightarrow> string \<Rightarrow> jwt_error + TokenPair" where
  "AuthHandler_issueTokens cfg now userID email =
     (let accessClaims =
            [(''user_id'', JString userID),
             (''email'', JString email),
             (''type'', JString ''access''),
             (''iat'', JNumber (Unix now)),
             (''exp'', JNumber (Unix (now + JWTExpiry cfg)))];
          accessToken = jwt_NewWithClaims SigningMethodHS256 accessClaims
      in (case jwt_SignedString accessToken (JWTSecret cfg) of
            Inl err \<Rightarrow> Inl err
          | Inr accessStr \<Rightarrow>
              (let refreshClaims =
                     [(''user_id'', JString userID),
                      (''email'', JString email),
                      (''type'', JString ''refresh''),
                      (''iat'', JNumber (Unix now)),
                      (''exp'', JNumber (Unix (now + 7 * 24 * Hour)))];
                   refreshToken = jwt_NewWithClaims SigningMethodHS256 refreshClaims
               in (case jwt_SignedString refreshToken (JWTSecret cfg) of
                     Inl err \<Rightarrow> Inl err
                   | Inr refreshStr \<Rightarrow>
                       Inr \<lparr>AccessToken = accessStr, RefreshToken = refreshStr\<rparr>))))"

text \<open>
  \<^verbatim>\<open>Login\<close>. The credential check is the stub of the source: \<open>authenticated\<close> is
  always true.
\<close>

definition AuthHandler_Login :: "Config \<Rightarrow> Handler" where
  "AuthHandler_Login cfg now r w =
     (if ReqMethod r \<noteq> ''POST'' then
        (writeError StatusMethodNotAllowed ''method not allowed'', w)
      else
       (case Body r of
          None \<Rightarrow> (writeError StatusBadRequest ''invalid request body'', w)
        | Some creds \<Rightarrow>
           (let Email = json_field creds ''email''; Password = json_field creds ''password'' in
            if Email = [] \<or> Password = [] then
              (writeError StatusBadRequest ''email and password are required'', w)
            else
             (case GetRecentFailedAttempts w Email (now + (- 15 * Minute)) of
                (failedCount, err) \<Rightarrow>
                 (let w1 = (case err of None \<Rightarrow> w
                            | Some e \<Rightarrow> log_Printf ''error checking failed attempts'' w) in
                  if failedCount \<ge> 5 then
                    (writeError StatusTooManyRequests
                       ''too many failed login attempts, try again later'', w1)
                  else
                   (let userID = ''user-'' @ Email;
                        authenticated = True in
                    (case generateID w1 of
                       (id1, w2) \<Rightarrow>
                        (let attempt =
                               \<lparr>AttemptID = id1, AttemptEmail = Email, Success = authenticated,
                                IPAddress = RemoteAddr r, AttemptCreatedAt = now\<rparr> in
                         (case RecordLoginAttempt w2 attempt of
                            (err2, w3) \<Rightarrow>
                             (let w4 = (case err2 of None \<Rightarrow> w3
                                        | Some e \<Rightarrow>
                                            log_Printf ''error recording login attempt'' w3) in
                              if \<not> authenticated then
                                (writeError StatusUnauthorized ''invalid credentials'', w4)
                              else
                               (case AuthHandler_issueTokens cfg now userID Email of
                                  Inl e \<Rightarrow>
                                    (writeError StatusInternalServerError
                                       ''failed to issue tokens'',
                                     log_Printf ''error issuing tokens'' w4)
                                | Inr tokenPair \<Rightarrow>
                                   (case generateID w4 of
                                      (id2, w5) \<Rightarrow>
                                       (let session =
                                              \<lparr>ID = id2, UserID = userID,
                                               Token = AccessToken tokenPair,
                                               ExpiresAt = now + JWTExpiry cfg,
                                               CreatedAt = now\<rparr> in
                                        (case CreateSession w5 session of
                                           (Some e, w6) \<Rightarrow>
                                             (writeError StatusInternalServerError
                                                ''failed to create session'',
                                              log_Printf ''error creating session'' w6)
                                         | (None, w6) \<Rightarrow>
                                            (case CacheSession w6 now (Token session) session
                                                    (JWTExpiry cfg) of
                                               (err3, w7) \<Rightarrow>
                                                 (writeJSON StatusOK (TokenPairBody tokenPair),
                                                  w7))))))))))))))))"

text \<open>\<^verbatim>\<open>Logout\<close>, behind \<^verbatim>\<open>JWTAuth\<close> in the routing table.\<close>

definition AuthHandler_Logout :: "Config \<Rightarrow> Handler" where
  "AuthHandler_Logout cfg now r w =
     (if ReqMethod r \<noteq> ''POST'' then
        (writeError StatusMethodNotAllowed ''method not allowed'', w)
      else
       (case GetClaims r of
          None \<Rightarrow> (writeError StatusUnauthorized ''unauthorized'', w)
        | Some claims \<Rightarrow>
           (let tokenStr0 = Authorization r;
                tokenStr = (if length tokenStr0 > 7 then drop 7 tokenStr0 else tokenStr0) in
            (case BlacklistToken w now tokenStr (JWTExpiry cfg) of
               (err1, w1) \<Rightarrow>
                (let w2 = (case err1 of None \<Rightarrow> w1
                           | Some e \<Rightarrow> log_Printf ''error blacklisting token'' w1) in
                 (case DeleteSession w2 tokenStr of
                    (err2, w3) \<Rightarrow>
                     (let w4 = (case err2 of None \<Rightarrow> w3
                                | Some e \<Rightarrow> log_Printf ''error deleting session'' w3) in
                      (case InvalidateCachedSession w4 tokenStr of
                         (err3, w5) \<Rightarrow>
                          (let w6 = log_Printf
                                      (''user '' @ ClaimsUserID claims @ '' logged out'') w5 in
                           (writeJSON StatusOK (MessageBody ''logged out successfully''),
                            w6))))))))))"

text \<open>\<^verbatim>\<open>RefreshToken\<close>.\<close>

definition AuthHandler_RefreshToken :: "Config \<Rightarrow> Handler" where
  "AuthHandler_RefreshToken cfg now r w =
     (if ReqMethod r \<noteq> ''POST'' then
        (writeError StatusMethodNotAllowed ''method not allowed'', w)
      else
       (case Body r of
          None \<Rightarrow> (writeError StatusBadRequest ''refresh_token is required'', w)
        | Some req \<Rightarrow>
           (let RefreshToken = json_field req ''refresh_token'' in
            if RefreshToken = [] then
              (writeError StatusBadRequest ''refresh_token is required'', w)
            else
             (case IsTokenBlacklisted w now RefreshToken of
                (blacklisted, Some err) \<Rightarrow>
                  (writeError StatusInternalServerError ''internal error'',
                   log_Printf ''error checking blacklist'' w)
              | (blacklisted, None) \<Rightarrow>
                  if blacklisted then
                    (writeError StatusUnauthorized ''token has been revoked'', w)
                  else
                   (case jwt_Parse now RefreshToken (keyFunc (JWTSecret cfg)) of
                      Inl err \<Rightarrow>
                        (writeError StatusUnauthorized ''invalid or expired refresh token'', w)
                    | Inr token \<Rightarrow>
                        if \<not> Valid token then
                          (writeError StatusUnauthorized ''invalid or expired refresh token'', w)
                        else
                         (let mapClaims = TokenClaims token;
                              userID = getStringClaim mapClaims ''user_id'';
                              email = getStringClaim mapClaims ''email'';
                              tokenType = getStringClaim mapClaims ''type'' in
                          if tokenType \<noteq> ''refresh'' then
                            (writeError StatusUnauthorized ''not a refresh token'', w)
                          else
                           (case BlacklistToken w now RefreshToken (7 * 24 * Hour) of
                              (err1, w1) \<Rightarrow>
                               (case AuthHandler_issueTokens cfg now userID email of
                                  Inl e \<Rightarrow>
                                    (writeError StatusInternalServerError
                                       ''failed to issue tokens'',
                                     log_Printf ''error issuing tokens'' w1)
                                | Inr newPair \<Rightarrow>
                                    (writeJSON StatusOK (TokenPairBody newPair), w1)))))))))"

text \<open>\<^verbatim>\<open>ValidateToken\<close>.\<close>

definition AuthHandler_ValidateToken :: "Config \<Rightarrow> Handler" where
  "AuthHandler_ValidateToken cfg now r w =
     (if ReqMethod r \<noteq> ''POST'' then
        (writeError StatusMethodNotAllowed ''method not allowed'', w)
      else
       (case Body r of
          None \<Rightarrow> (writeError StatusBadRequest ''token is required'', w)
        | Some req \<Rightarrow>
           (let Token = json_field req ''token'' in
            if Token = [] then
              (writeError StatusBadRequest ''token is required'', w)
            else
             (case IsTokenBlacklisted w now Token of
                (blacklisted, err) \<Rightarrow>
                 (let w1 = (case err of None \<Rightarrow> w
                            | Some e \<Rightarrow> log_Printf ''error checking blacklist'' w) in
                  if blacklisted then
                    (writeJSON StatusOK (TokenValidationResponse False [] []), w1)
                  else
                   (case jwt_Parse now Token (keyFunc (JWTSecret cfg)) of
                      Inl e \<Rightarrow> (writeJSON StatusOK (TokenValidationResponse False [] []), w1)
                    | Inr token \<Rightarrow>
                        if \<not> Valid token then
                          (writeJSON StatusOK (TokenValidationResponse False [] []), w1)
                        else
                         (let mapClaims = TokenClaims token in
                          (writeJSON StatusOK
                             (TokenValidationResponse True
                                (getStringClaim mapClaims ''user_id'')
                                (getStringClaim mapClaims ''email'')), w1))))))))"

section \<open>Routes (cmd/main.go)\<close>

text \<open>
  One limiter, \<^verbatim>\<open>NewRateLimiter(60, 1*time.Minute)\<close>, in front of every route; the
  logout route also goes through \<^verbatim>\<open>JWTAuth\<close>.
\<close>

definition route_login ::
  "Config \<Rightarrow> time \<Rightarrow> Request \<Rightarrow> RateLimiter \<times> world \<Rightarrow> Response \<times> RateLimiter \<times> world" where
  "route_login cfg = Middleware (AuthHandler_Login cfg)"

definition route_refresh ::
  "Config \<Rightarrow> time \<Rightarrow> Request \<Rightarrow> RateLimiter \<times> world \<Rightarrow> Response \<times> RateLimiter \<times> world" where
  "route_refresh cfg = Middleware (AuthHandler_RefreshToken cfg)"

definition route_validate ::
  "Config \<Rightarrow> time \<Rightarrow> Request \<Rightarrow> RateLimiter \<times> world \<Rightarrow> Response \<times> RateLimiter \<times> world" where
  "route_validate cfg = Middleware (AuthHandler_ValidateToken cfg)"

definition route_logout ::
  "Config \<Rightarrow> time \<Rightarrow> Request \<Rightarrow> RateLimiter \<times> world \<Rightarrow> Response \<times> RateLimiter \<times> world" where
  "route_logout cfg = Middleware (JWTAuth (JWTSecret cfg) (AuthHandler_Logout cfg))"

section \<open>Initial state\<close>

text \<open>
  The state at start-up: the tables as the migration creates them, an empty Redis, both
  stores answering. The argument is the sequence of identifiers \<^verbatim>\<open>generateID\<close>
  will draw.
\<close>

definition fresh_world :: "(nat \<Rightarrow> string) \<Rightarrow> world" where
  "fresh_world ids =
     \<lparr>sessions = [], login_attempts = [], redis = Map.empty, db_up = True, redis_up = True,
      logs = [], entropy = ids, drawn = 0\<rparr>"

section \<open>Properties of the rate limiter\<close>

lemma remove_expired_filter:
  "remove_expired ws ts valid = valid @ filter (\<lambda>t. ws < t) ts"
  by (induction ts arbitrary: valid) (simp_all add: After_def)

lemma Middleware_check_eq:
  "Middleware_check rl now ip =
     (let valid = filter (\<lambda>t. now - window rl < t) (requests_at rl ip)
      in if limit rl \<le> int (length valid)
         then (False, rl\<lparr>requests := (requests rl)(ip \<mapsto> valid)\<rparr>)
         else (True, rl\<lparr>requests := (requests rl)(ip \<mapsto> valid @ [now])\<rparr>))"
  by (simp add: Middleware_check_def Let_def remove_expired_filter requests_at_def)

lemma Middleware_check_limit [simp]: "limit (snd (Middleware_check rl now ip)) = limit rl"
  by (simp add: Middleware_check_eq Let_def)

lemma Middleware_check_window [simp]: "window (snd (Middleware_check rl now ip)) = window rl"
  by (simp add: Middleware_check_eq Let_def)

lemma Middleware_check_other:
  "k \<noteq> ip \<Longrightarrow> requests_at (snd (Middleware_check rl now ip)) k = requests_at rl k"
  by (simp add: Middleware_check_eq Let_def requests_at_def)

lemma Middleware_check_same:
  "requests_at (snd (Middleware_check rl now ip)) ip =
     filter (\<lambda>t. now - window rl < t) (requests_at rl ip) @
     (if fst (Middleware_check rl now ip) then [now] else [])"
  by (simp add: Middleware_check_eq Let_def requests_at_def)

lemma Middleware_check_admit:
  "fst (Middleware_check rl now ip) =
     (int (length (filter (\<lambda>t. now - window rl < t) (requests_at rl ip))) < limit rl)"
  by (auto simp add: Middleware_check_eq Let_def)

subsection \<open>Claim C7\<close>



subsection \<open>Claim C10\<close>

lemma Middleware_check_bounded:
  assumes "\<forall>k. int (length (requests_at rl k)) \<le> limit rl"
  shows "int (length (requests_at (snd (Middleware_check rl now ip)) k)) \<le> limit rl"
proof (cases "k = ip")
  case False
  then show ?thesis using assms by (simp add: Middleware_check_other)
next
  case True
  have le: "int (length (filter (\<lambda>t. now - window rl < t) (requests_at rl ip))) \<le> limit rl"
    using assms [rule_format, of ip] length_filter_le [of "\<lambda>t. now - window rl < t" "requests_at rl ip"]
    by linarith
  show ?thesis
    using le True by (simp add: Middleware_check_same Middleware_check_admit)
qed

lemma checks_limit [simp]: "limit (checks rl cs) = limit rl"
  by (induction rl cs rule: checks.induct) simp_all

lemma checks_bounded:
  "\<forall>k. int (length (requests_at rl k)) \<le> limit rl \<Longrightarrow>
   int (length (requests_at (checks rl cs) k)) \<le> limit rl"
proof (induction rl cs rule: checks.induct)
  case (1 rl)
  then show ?case by simp
next
  case (2 rl now ip cs)
  have "\<forall>k. int (length (requests_at (snd (Middleware_check rl now ip)) k))
          \<le> limit (snd (Middleware_check rl now ip))"
    using Middleware_check_bounded [OF "2.prems"] by simp
  from "2.IH" [OF this] show ?case by simp
qed

text \<open>
  C10, as amended. For a limiter made by \<^verbatim>\<open>NewRateLimiter\<close> with \<open>0 \<le> limit\<close>, after
  any sequence of checks the list of every key has at most \<open>limit\<close> entries. A check
  leaves the list of the key it checks with the timestamps after \<open>now - window\<close>,
  followed by \<open>now\<close> exactly when the request is admitted, so with \<open>0 < window\<close>
  that list holds only timestamps newer than \<open>now - window\<close>; the lists of all other
  keys are left as they were, whatever their age.
\<close>

theorem rate_limiter_lists_bounded:
  "(0 \<le> l \<longrightarrow> (\<forall>k. int (length (requests_at (checks (NewRateLimiter l w) cs) k)) \<le> l)) \<and>
   (0 < window rl \<longrightarrow>
      (\<forall>t \<in> set (requests_at (snd (Middleware_check rl now ip)) ip). now - window rl < t)) \<and>
   (\<forall>k. k \<noteq> ip \<longrightarrow> requests_at (snd (Middleware_check rl now ip)) k = requests_at rl k) \<and>
   requests_at (snd (Middleware_check rl now ip)) ip =
      filter (\<lambda>t. now - window rl < t) (requests_at rl ip) @
      (if fst (Middleware_check rl now ip) then [now] else [])"
proof (intro conjI impI allI ballI)
  fix k
  assume "0 \<le> l"
  then have "\<forall>k. int (length (requests_at (NewRateLimiter l w) k)) \<le> limit (NewRateLimiter l w)"
    by (simp add: NewRateLimiter_def requests_at_def)
  from checks_bounded [OF this, of cs k]
  show "int (length (requests_at (checks (NewRateLimiter l w) cs) k)) \<le> l"
    by (simp add: NewRateLimiter_def)
next
  fix t
  assume "0 < window rl" and "t \<in> set (requests_at (snd (Middleware_check rl now ip)) ip)"
  then show "now - window rl < t"
    by (auto simp add: Middleware_check_same split: if_splits)
next
  fix k
  assume "k \<noteq> ip"
  then show "requests_at (snd (Middleware_check rl now ip)) k = requests_at rl k"
    by (rule Middleware_check_other)
next
  show "requests_at (snd (Middleware_check rl now ip)) ip =
      filter (\<lambda>t. now - window rl < t) (requests_at rl ip) @
      (if fst (Middleware_check rl now ip) then [now] else [])"
    by (rule Middleware_check_same)
qed

theorem rate_limiter_lists_bounded_witness:
  "int (length (requests_at (checks (NewRateLimiter 2 Second)
       [(0, ''a''), (1, ''a''), (2, ''a''), (3, ''b'')]) ''a'')) \<le> 2 \<and>
   requests_at (snd (Middleware_check (NewRateLimiter 2 Second) 7 ''a'')) ''a'' = [7] \<and>
   requests_at (snd (Middleware_check (NewRateLimiter 2 Second) 7 ''a'')) ''b'' = []"
proof -
  have s: "(0::int) < Second" by (simp add: Second_def)
  note t = rate_limiter_lists_bounded [of 2 Second
      "[(0, ''a''), (1, ''a''), (2, ''a''), (3, ''b'')]" "NewRateLimiter 2 Second" 7 "''a''"]
  have w: "window (NewRateLimiter 2 Second) = Second" by (simp add: NewRateLimiter_def)
  have e: "requests_at (NewRateLimiter 2 Second) ''b'' = []"
    by (simp add: NewRateLimiter_def requests_at_def)
  have "requests_at (snd (Middleware_check (NewRateLimiter 2 Second) 7 ''a'')) ''a'' = [7]"
    by (simp add: Middleware_check_eq NewRateLimiter_def requests_at_def)
  moreover have "requests_at (snd (Middleware_check (NewRateLimiter 2 Second) 7 ''a'')) ''b'' = []"
    using t e by simp
  moreover have "int (length (requests_at (checks (NewRateLimiter 2 Second)
       [(0, ''a''), (1, ''a''), (2, ''a''), (3, ''b'')]) ''a'')) \<le> 2"
    using t by simp
  ultimately show ?thesis by simp
qed

text \<open>
  The freshness of C10 does not extend to every key: after a check for key \<open>b\<close> five
  seconds after the only request of key \<open>a\<close>, the list of \<open>a\<close> still holds that
  request. Nor does the bound hold for a negative limit, or the freshness of the
  admitted timestamp for a window of zero.
\<close>

theorem rate_limiter_stale_other_key_counterexample:
  "requests_at (snd (Middleware_check (snd (Middleware_check (NewRateLimiter 3 Second) 0 ''a''))
       (5 * Second) ''b'')) ''a'' = [0] \<and>
   \<not> (5 * Second - window (snd (Middleware_check (snd (Middleware_check (NewRateLimiter 3 Second) 0 ''a''))
       (5 * Second) ''b'')) < 0) \<and>
   \<not> (int (length (requests_at (snd (Middleware_check (NewRateLimiter (- 1) Second) 0 ''a'')) ''a''))
        \<le> limit (NewRateLimiter (- 1) Second)) \<and>
   requests_at (snd (Middleware_check (NewRateLimiter 3 0) 7 ''a'')) ''a'' = [7] \<and>
   \<not> (7 - window (NewRateLimiter 3 0) < (7::int))"
  by (simp add: Middleware_check_eq NewRateLimiter_def requests_at_def Second_def)

section \<open>Properties of the JWT model\<close>

lemma dec_nat_enc_nat: "dec_nat (enc_nat n @ rest) = Some (n, rest)"
  by (induction n) (simp_all add: enc_nat_def)

lemma dec_str_enc_str: "dec_str (enc_str s @ rest) = Some (s, rest)"
  by (simp add: dec_str_def enc_str_def dec_nat_enc_nat)

lemma dec_str_enc_str_Nil: "dec_str (enc_str s) = Some (s, [])"
  using dec_str_enc_str [of s "[]"] by simp

lemma dec_int_enc_int: "dec_int (enc_int i @ rest) = Some (i, rest)"
  by (simp add: enc_int_def dec_nat_enc_nat)

lemma dec_jval_enc_jval: "dec_jval (enc_jval v @ rest) = Some (v, rest)"
  by (cases v) (simp_all add: dec_str_enc_str dec_int_enc_int)

lemma dec_entries_enc_entries:
  "dec_entries (length m) (enc_entries m @ rest) = Some (m, rest)"
  by (induction m) (auto simp add: dec_str_enc_str dec_jval_enc_jval)

lemma dec_claims_enc_claims: "dec_claims (enc_claims m @ rest) = Some (m, rest)"
  by (simp add: dec_claims_def enc_claims_def dec_nat_enc_nat dec_entries_enc_entries)

lemma dec_method_enc_method: "dec_method (enc_method m @ rest) = Some (m, rest)"
  by (cases m) (simp_all add: dec_str_enc_str)

lemma enc_method_not_Nil: "enc_method m \<noteq> []"
  by (cases m) simp_all

lemma ParseUnverified_SignedString:
  "jwt_SignedString t key = Inr s \<Longrightarrow>
   ParseUnverified s =
     Some (t\<lparr>Signature := hmac_Sign (Method t) (SigningString t) key, Valid := False\<rparr>)"
proof -
  assume a: "jwt_SignedString t key = Inr s"
  then have s: "s = enc_method (Method t) @ enc_claims (TokenClaims t) @
       enc_str (hmac_Sign (Method t) (SigningString t) key) @ []"
    by (simp add: jwt_SignedString_def SigningString_def split: if_splits)
  show ?thesis
    unfolding s ParseUnverified_def
    by (simp add: dec_method_enc_method dec_claims_enc_claims dec_str_enc_str_Nil)
qed

lemma SignedString_not_Nil: "jwt_SignedString t key = Inr s \<Longrightarrow> s \<noteq> []"
  by (auto simp add: jwt_SignedString_def SigningString_def enc_method_not_Nil split: if_splits)

text \<open>Parsing a token signed under the secret: valid exactly when the claims validate.\<close>

lemma jwt_Parse_SignedString:
  assumes "jwt_SignedString t secret = Inr s"
  shows "jwt_Parse now s (keyFunc secret) =
     (case Validate now (TokenClaims t) of
        Some e \<Rightarrow> Inl e
      | None \<Rightarrow> Inr (t\<lparr>Signature := hmac_Sign (Method t) (SigningString t) secret, Valid := True\<rparr>))"
proof -
  have h: "is_SigningMethodHMAC (Method t)"
    using assms by (simp add: jwt_SignedString_def split: if_splits)
  show ?thesis
    using h
    by (simp add: jwt_Parse_def ParseUnverified_SignedString [OF assms] keyFunc_def
        hmac_Verify_def SigningString_def split: option.splits)
qed

lemma issueTokens_signed:
  "\<exists>a r. AuthHandler_issueTokens cfg now userID email = Inr \<lparr>AccessToken = a, RefreshToken = r\<rparr> \<and>
     jwt_SignedString (jwt_NewWithClaims SigningMethodHS256
        [(''user_id'', JString userID), (''email'', JString email), (''type'', JString ''access''),
         (''iat'', JNumber (Unix now)), (''exp'', JNumber (Unix (now + JWTExpiry cfg)))])
        (JWTSecret cfg) = Inr a \<and>
     jwt_SignedString (jwt_NewWithClaims SigningMethodHS256
        [(''user_id'', JString userID), (''email'', JString email), (''type'', JString ''refresh''),
         (''iat'', JNumber (Unix now)), (''exp'', JNumber (Unix (now + 7 * 24 * Hour)))])
        (JWTSecret cfg) = Inr r"
  by (simp add: AuthHandler_issueTokens_def Let_def jwt_SignedString_def jwt_NewWithClaims_def)

lemma Validate_exp_only:
  "map_of claims ''exp'' = Some (JNumber e) \<Longrightarrow> map_of claims ''nbf'' = None \<Longrightarrow>
   Validate now claims = (if e = 0 \<or> now < e * Second then None else Some ErrTokenExpired)"
  by (simp add: Validate_def verifyExpiresAt_def verifyNotBefore_def Before_def)

lemma parse_access_token:
  assumes "AuthHandler_issueTokens cfg now userID email = Inr pair"
  shows "jwt_Parse t (AccessToken pair) (keyFunc (JWTSecret cfg)) =
     (if Unix (now + JWTExpiry cfg) = 0 \<or> t < Unix (now + JWTExpiry cfg) * Second
      then Inr \<lparr>Method = SigningMethodHS256,
                TokenClaims =
                  [(''user_id'', JString userID), (''email'', JString email),
                   (''type'', JString ''access''), (''iat'', JNumber (Unix now)),
                   (''exp'', JNumber (Unix (now + JWTExpiry cfg)))],
                Signature = hmac_Sign SigningMethodHS256
                  (SigningString (jwt_NewWithClaims SigningMethodHS256
                     [(''user_id'', JString userID), (''email'', JString email),
                      (''type'', JString ''access''), (''iat'', JNumber (Unix now)),
                      (''exp'', JNumber (Unix (now + JWTExpiry cfg)))])) (JWTSecret cfg),
                Valid = True\<rparr>
      else Inl ErrTokenExpired)"
proof -
  from issueTokens_signed [of cfg now userID email] assms
  have s: "jwt_SignedString (jwt_NewWithClaims SigningMethodHS256
        [(''user_id'', JString userID), (''email'', JString email), (''type'', JString ''access''),
         (''iat'', JNumber (Unix now)), (''exp'', JNumber (Unix (now + JWTExpiry cfg)))])
        (JWTSecret cfg) = Inr (AccessToken pair)"
    by auto
  show ?thesis
    by (simp add: jwt_Parse_SignedString [OF s] jwt_NewWithClaims_def Validate_exp_only)
qed

lemma parse_refresh_token:
  assumes "AuthHandler_issueTokens cfg now userID email = Inr pair"
  shows "jwt_Parse t (RefreshToken pair) (keyFunc (JWTSecret cfg)) =
     (if Unix (now + 7 * 24 * Hour) = 0 \<or> t < Unix (now + 7 * 24 * Hour) * Second
      then Inr \<lparr>Method = SigningMethodHS256,
                TokenClaims =
                  [(''user_id'', JString userID), (''email'', JString email),
                   (''type'', JString ''refresh''), (''iat'', JNumber (Unix now)),
                   (''exp'', JNumber (Unix (now + 7 * 24 * Hour)))],
                Signature = hmac_Sign SigningMethodHS256
                  (SigningString (jwt_NewWithClaims SigningMethodHS256
                     [(''user_id'', JString userID), (''email'', JString email),
                      (''type'', JString ''refresh''), (''iat'', JNumber (Unix now)),
                      (''exp'', JNumber (Unix (now + 7 * 24 * Hour)))])) (JWTSecret cfg),
                Valid = True\<rparr>
      else Inl ErrTokenExpired)"
proof -
  from issueTokens_signed [of cfg now userID email] assms
  have s: "jwt_SignedString (jwt_NewWithClaims SigningMethodHS256
        [(''user_id'', JString userID), (''email'', JString email), (''type'', JString ''refresh''),
         (''iat'', JNumber (Unix now)), (''exp'', JNumber (Unix (now + 7 * 24 * Hour)))])
        (JWTSecret cfg) = Inr (RefreshToken pair)"
    by auto
  show ?thesis
    by (simp add: jwt_Parse_SignedString [OF s] jwt_NewWithClaims_def Validate_exp_only)
qed

lemma issued_tokens_not_Nil:
  assumes "AuthHandler_issueTokens cfg now userID email = Inr pair"
  shows "AccessToken pair \<noteq> []" and "RefreshToken pair \<noteq> []"
  using issueTokens_signed [of cfg now userID email] assms
  by (auto dest: SignedString_not_Nil)

lemma Unix_mult_gt: "Unix t * Second > t - Second"
proof -
  have "0 < Second" by (simp add: Second_def)
  then have "t mod Second < Second" by simp
  moreover have "t = Unix t * Second + t mod Second" by (simp add: Unix_def)
  ultimately show ?thesis by linarith
qed

lemma Unix_mult_le: "Unix t * Second \<le> t"
proof -
  have "0 < Second" by (simp add: Second_def)
  then have "0 \<le> t mod Second" by simp
  moreover have "t = Unix t * Second + t mod Second" by (simp add: Unix_def)
  ultimately show ?thesis by linarith
qed

section \<open>Properties of the handlers\<close>

lemmas status_defs = StatusOK_def StatusBadRequest_def StatusUnauthorized_def
  StatusMethodNotAllowed_def StatusTooManyRequests_def StatusInternalServerError_def

lemma IsTokenBlacklisted_up:
  "redis_up w \<Longrightarrow>
   IsTokenBlacklisted w now tok = (redis_live w now (blacklistPrefix @ tok) \<noteq> None, None)"
  by (simp add: IsTokenBlacklisted_def redis_Exists_def split: option.splits)

lemma IsTokenBlacklisted_down:
  "\<not> redis_up w \<Longrightarrow> IsTokenBlacklisted w now tok = (False, Some redis_error)"
  by (simp add: IsTokenBlacklisted_def redis_Exists_def)

lemma IsTokenBlacklisted_error_iff:
  "snd (IsTokenBlacklisted w now tok) = Some err \<longleftrightarrow> (\<not> redis_up w \<and> err = redis_error)"
  by (cases "redis_up w") (auto simp add: IsTokenBlacklisted_up IsTokenBlacklisted_down)

lemma BlacklistToken_up:
  "redis_up w \<Longrightarrow>
   BlacklistToken w now tok ttl =
     (None, w\<lparr>redis := (redis w)(blacklistPrefix @ tok \<mapsto>
        (''1'', if 0 < ttl then Some (now + ttl) else None))\<rparr>)"
  by (simp add: BlacklistToken_def redis_Set_def)

lemma BlacklistToken_down:
  "\<not> redis_up w \<Longrightarrow> BlacklistToken w now tok ttl = (Some redis_error, w)"
  by (simp add: BlacklistToken_def redis_Set_def)

lemma ValidateToken_response:
  assumes "ReqMethod r = ''POST''" and "Body r = Some req"
    and "json_field req ''token'' = tok" and "tok \<noteq> []"
  shows "fst (AuthHandler_ValidateToken cfg now r w) =
     (if fst (IsTokenBlacklisted w now tok)
      then (StatusOK, TokenValidationResponse False [] [])
      else (case jwt_Parse now tok (keyFunc (JWTSecret cfg)) of
              Inl e \<Rightarrow> (StatusOK, TokenValidationResponse False [] [])
            | Inr token \<Rightarrow>
                if \<not> Valid token then (StatusOK, TokenValidationResponse False [] [])
                else (StatusOK, TokenValidationResponse True
                        (getStringClaim (TokenClaims token) ''user_id'')
                        (getStringClaim (TokenClaims token) ''email''))))"
  using assms
  by (simp add: AuthHandler_ValidateToken_def Let_def writeJSON_def
      split: prod.splits sum.splits)

lemma ValidateToken_world:
  assumes "ReqMethod r = ''POST''" and "Body r = Some req"
    and "json_field req ''token'' = tok" and "tok \<noteq> []"
  shows "snd (AuthHandler_ValidateToken cfg now r w) =
     (case snd (IsTokenBlacklisted w now tok) of
        None \<Rightarrow> w
      | Some e \<Rightarrow> log_Printf ''error checking blacklist'' w)"
  using assms
  by (simp add: AuthHandler_ValidateToken_def Let_def
      split: prod.splits sum.splits)

lemma RefreshToken_eq:
  assumes "ReqMethod r = ''POST''" and "Body r = Some req"
    and "json_field req ''refresh_token'' = tok" and "tok \<noteq> []"
  shows "AuthHandler_RefreshToken cfg now r w =
     (case IsTokenBlacklisted w now tok of
        (blacklisted, Some err) \<Rightarrow>
          (writeError StatusInternalServerError ''internal error'',
           log_Printf ''error checking blacklist'' w)
      | (blacklisted, None) \<Rightarrow>
          if blacklisted then (writeError StatusUnauthorized ''token has been revoked'', w)
          else (case jwt_Parse now tok (keyFunc (JWTSecret cfg)) of
                  Inl err \<Rightarrow>
                    (writeError StatusUnauthorized ''invalid or expired refresh token'', w)
                | Inr token \<Rightarrow>
                    if \<not> Valid token then
                      (writeError StatusUnauthorized ''invalid or expired refresh token'', w)
                    else if getStringClaim (TokenClaims token) ''type'' \<noteq> ''refresh'' then
                      (writeError StatusUnauthorized ''not a refresh token'', w)
                    else
                      (case AuthHandler_issueTokens cfg now
                              (getStringClaim (TokenClaims token) ''user_id'')
                              (getStringClaim (TokenClaims token) ''email'') of
                         Inl e \<Rightarrow>
                           (writeError StatusInternalServerError ''failed to issue tokens'',
                            log_Printf ''error issuing tokens''
                              (snd (BlacklistToken w now tok (7 * 24 * Hour))))
                       | Inr newPair \<Rightarrow>
                           (writeJSON StatusOK (TokenPairBody newPair),
                            snd (BlacklistToken w now tok (7 * 24 * Hour))))))"
proof -
  obtain b e where ib: "IsTokenBlacklisted w now tok = (b, e)"
    by (cases "IsTokenBlacklisted w now tok")
  obtain e1 w1 where bt: "BlacklistToken w now tok (7 * 24 * Hour) = (e1, w1)"
    by (cases "BlacklistToken w now tok (7 * 24 * Hour)")
  show ?thesis
  proof (cases "jwt_Parse now tok (keyFunc (JWTSecret cfg))")
    case (Inl err)
    with assms ib show ?thesis
      by (cases e) (simp_all add: AuthHandler_RefreshToken_def Let_def)
  next
    case (Inr token)
    show ?thesis
    proof (cases "AuthHandler_issueTokens cfg now
        (getStringClaim (TokenClaims token) ''user_id'')
        (getStringClaim (TokenClaims token) ''email'')")
      case (Inl err)
      with assms ib bt Inr show ?thesis
        by (cases e) (simp_all add: AuthHandler_RefreshToken_def Let_def)
    next
      case (Inr pair)
      with assms ib bt \<open>jwt_Parse now tok (keyFunc (JWTSecret cfg)) = Inr token\<close> show ?thesis
        by (cases e) (simp_all add: AuthHandler_RefreshToken_def Let_def)
    qed
  qed
qed

lemma jwt_Parse_Inr_Valid: "jwt_Parse now s kf = Inr token \<Longrightarrow> Valid token"
  by (auto simp add: jwt_Parse_def split: option.splits sum.splits if_splits)

lemma SignedString_projr:
  "is_SigningMethodHMAC (Method t) \<Longrightarrow>
   jwt_SignedString t key = Inr (projr (jwt_SignedString t key))"
  by (simp add: jwt_SignedString_def)


subsection \<open>Claim C9\<close>

text \<open>
  C9. When \<^verbatim>\<open>IsTokenBlacklisted\<close> returns an error, \<^verbatim>\<open>ValidateToken\<close> logs it and
  answers exactly as it would for a token that is not blacklisted (so a token that
  parses as valid is reported \<open>valid = true\<close>, whatever the blacklist holds), whereas
  \<^verbatim>\<open>RefreshToken\<close> answers 500 "internal error", logs, and does nothing else.
\<close>

theorem blacklist_store_failure_asymmetry:
  assumes "snd (IsTokenBlacklisted w now tok) = Some err" and "tok \<noteq> []"
    and "ReqMethod rv = ''POST''" and "Body rv = Some reqv" and "json_field reqv ''token'' = tok"
    and "ReqMethod rr = ''POST''" and "Body rr = Some reqr"
    and "json_field reqr ''refresh_token'' = tok"
  shows "AuthHandler_ValidateToken cfg now rv w =
           (fst (AuthHandler_ValidateToken cfg now rv
                   (w\<lparr>redis_up := True, redis := (redis w)(blacklistPrefix @ tok := None)\<rparr>)),
            log_Printf ''error checking blacklist'' w) \<and>
         (\<forall>token. jwt_Parse now tok (keyFunc (JWTSecret cfg)) = Inr token \<longrightarrow>
            fst (AuthHandler_ValidateToken cfg now rv w) =
              (StatusOK, TokenValidationResponse True
                 (getStringClaim (TokenClaims token) ''user_id'')
                 (getStringClaim (TokenClaims token) ''email''))) \<and>
         AuthHandler_RefreshToken cfg now rr w =
           (writeError StatusInternalServerError ''internal error'',
            log_Printf ''error checking blacklist'' w)"
proof -
  from assms(1) have down: "\<not> redis_up w"
    by (simp add: IsTokenBlacklisted_error_iff)
  then have ib: "IsTokenBlacklisted w now tok = (False, Some redis_error)"
    by (rule IsTokenBlacklisted_down)
  let ?w' = "w\<lparr>redis_up := True, redis := (redis w)(blacklistPrefix @ tok := None)\<rparr>"
  have ib': "IsTokenBlacklisted ?w' now tok = (False, None)"
    by (simp add: IsTokenBlacklisted_up redis_live_def)
  have resp: "fst (AuthHandler_ValidateToken cfg now rv w) =
      fst (AuthHandler_ValidateToken cfg now rv ?w')"
    using assms by (simp add: ValidateToken_response ib ib')
  have wld: "snd (AuthHandler_ValidateToken cfg now rv w) = log_Printf ''error checking blacklist'' w"
    using assms by (simp add: ValidateToken_world ib)
  have c1: "AuthHandler_ValidateToken cfg now rv w =
           (fst (AuthHandler_ValidateToken cfg now rv ?w'), log_Printf ''error checking blacklist'' w)"
    using resp wld by (simp add: prod_eq_iff)
  have c2: "\<forall>token. jwt_Parse now tok (keyFunc (JWTSecret cfg)) = Inr token \<longrightarrow>
            fst (AuthHandler_ValidateToken cfg now rv w) =
              (StatusOK, TokenValidationResponse True
                 (getStringClaim (TokenClaims token) ''user_id'')
                 (getStringClaim (TokenClaims token) ''email''))"
    using assms by (auto simp add: ValidateToken_response ib dest: jwt_Parse_Inr_Valid)
  have c3: "AuthHandler_RefreshToken cfg now rr w =
           (writeError StatusInternalServerError ''internal error'',
            log_Printf ''error checking blacklist'' w)"
    using assms by (simp add: RefreshToken_eq ib)
  from c1 c2 c3 show ?thesis by blast
qed

theorem blacklist_store_failure_asymmetry_witness:
  "let cfg = \<lparr>JWTSecret = ''k'', JWTExpiry = 15 * Minute\<rparr>;
       tok = projr (jwt_SignedString (jwt_NewWithClaims SigningMethodHS256
               [(''user_id'', JString ''u1''), (''email'', JString ''a@b.com''),
                (''type'', JString ''refresh'')]) ''k'');
       w = (fresh_world (\<lambda>n. replicate (Suc n) CHR ''a''))
             \<lparr>redis := [blacklistPrefix @ tok \<mapsto> (''1'', None)], redis_up := False\<rparr>;
       rv = \<lparr>ReqMethod = ''POST'', Authorization = [], RemoteAddr = ''10.0.0.1:4000'',
             Body = Some [(''token'', tok)], ctx_claims = None\<rparr>;
       rr = \<lparr>ReqMethod = ''POST'', Authorization = [], RemoteAddr = ''10.0.0.1:4000'',
             Body = Some [(''refresh_token'', tok)], ctx_claims = None\<rparr>
   in redis w (blacklistPrefix @ tok) = Some (''1'', None) \<and>
      fst (AuthHandler_ValidateToken cfg 5 rv w) =
        (StatusOK, TokenValidationResponse True ''u1'' ''a@b.com'') \<and>
      fst (AuthHandler_RefreshToken cfg 5 rr w) =
        (StatusInternalServerError, ErrorResponse ''internal error'') \<and>
      redis (snd (AuthHandler_RefreshToken cfg 5 rr w)) = redis w"
proof -
  define cfg where "cfg = \<lparr>JWTSecret = ''k'', JWTExpiry = 15 * Minute\<rparr>"
  define t where "t = jwt_NewWithClaims SigningMethodHS256
               [(''user_id'', JString ''u1''), (''email'', JString ''a@b.com''),
                (''type'', JString ''refresh'')]"
  define tok where "tok = projr (jwt_SignedString t ''k'')"
  define w where "w = (fresh_world (\<lambda>n. replicate (Suc n) CHR ''a''))
             \<lparr>redis := [blacklistPrefix @ tok \<mapsto> (''1'', None)], redis_up := False\<rparr>"
  define rv where "rv = \<lparr>ReqMethod = ''POST'', Authorization = [], RemoteAddr = ''10.0.0.1:4000'',
             Body = Some [(''token'', tok)], ctx_claims = None\<rparr>"
  define rr where "rr = \<lparr>ReqMethod = ''POST'', Authorization = [], RemoteAddr = ''10.0.0.1:4000'',
             Body = Some [(''refresh_token'', tok)], ctx_claims = None\<rparr>"
  have sg: "jwt_SignedString t (JWTSecret cfg) = Inr tok"
    unfolding tok_def cfg_def
    using SignedString_projr [of t "''k''"] by (simp add: t_def jwt_NewWithClaims_def)
  have ne: "tok \<noteq> []" using sg by (rule SignedString_not_Nil)
  have down: "snd (IsTokenBlacklisted w 5 tok) = Some redis_error"
    by (simp add: IsTokenBlacklisted_down w_def)
  have parse: "jwt_Parse 5 tok (keyFunc (JWTSecret cfg)) =
      Inr (t\<lparr>Signature := hmac_Sign (Method t) (SigningString t) (JWTSecret cfg), Valid := True\<rparr>)"
    by (simp add: jwt_Parse_SignedString [OF sg])
       (simp add: t_def jwt_NewWithClaims_def Validate_def verifyExpiresAt_def verifyNotBefore_def)
  note inst = blacklist_store_failure_asymmetry [of w 5 tok redis_error rv "[(''token'', tok)]"
      rr "[(''refresh_token'', tok)]" cfg, OF down ne]
  have h: "AuthHandler_ValidateToken cfg 5 rv w =
           (fst (AuthHandler_ValidateToken cfg 5 rv
                   (w\<lparr>redis_up := True, redis := (redis w)(blacklistPrefix @ tok := None)\<rparr>)),
            log_Printf ''error checking blacklist'' w) \<and>
         (\<forall>token. jwt_Parse 5 tok (keyFunc (JWTSecret cfg)) = Inr token \<longrightarrow>
            fst (AuthHandler_ValidateToken cfg 5 rv w) =
              (StatusOK, TokenValidationResponse True
                 (getStringClaim (TokenClaims token) ''user_id'')
                 (getStringClaim (TokenClaims token) ''email''))) \<and>
         AuthHandler_RefreshToken cfg 5 rr w =
           (writeError StatusInternalServerError ''internal error'',
            log_Printf ''error checking blacklist'' w)"
    by (rule inst) (simp_all add: rv_def rr_def json_field_def)
  have a: "redis w (blacklistPrefix @ tok) = Some (''1'', None)"
    by (simp add: w_def)
  have b: "fst (AuthHandler_ValidateToken cfg 5 rv w) =
        (StatusOK, TokenValidationResponse True ''u1'' ''a@b.com'')"
    using h [THEN conjunct2, THEN conjunct1, rule_format, OF parse]
    by (simp add: t_def jwt_NewWithClaims_def getStringClaim_def)
  have c: "fst (AuthHandler_RefreshToken cfg 5 rr w) =
        (StatusInternalServerError, ErrorResponse ''internal error'')"
    using h [THEN conjunct2, THEN conjunct2] by (simp add: writeError_def writeJSON_def)
  have d: "redis (snd (AuthHandler_RefreshToken cfg 5 rr w)) = redis w"
    using h [THEN conjunct2, THEN conjunct2] by (simp add: log_Printf_def)
  from a b c d show ?thesis
    unfolding Let_def cfg_def [symmetric] t_def [symmetric] tok_def [symmetric]
      w_def [symmetric] rv_def [symmetric] rr_def [symmetric]
    by simp
qed




subsection \<open>Claim C5\<close>



lemma CreateSession_None_D:
  assumes "CreateSession w s = (None, w1)"
  shows "db_up w" and "w1 = w\<lparr>sessions := sessions w @ [s]\<rparr>"
    and "Token s \<notin> set (map Token (sessions w))"
  using assms by (auto simp add: CreateSession_def split: if_splits)

lemma filter_Token_absent:
  "tok \<notin> set (map Token ss) \<Longrightarrow> filter (\<lambda>s. Token s = tok \<and> P s) ss = []"
  by (induction ss) auto

lemma GetSessionByToken_created:
  assumes "CreateSession w s = (None, w1)"
  shows "GetSessionByToken w1 now (Token s) =
     (if now < ExpiresAt s then Inr s else Inl session_not_found)"
  using CreateSession_None_D [OF assms]
  by (simp add: GetSessionByToken_def filter_Token_absent)

lemma GetSessionByToken_deleted:
  assumes "DeleteSession w tok = (None, w2)"
  shows "GetSessionByToken w2 now tok = Inl session_not_found"
proof -
  from assms have up: "db_up w" and w2: "w2 = w\<lparr>sessions := filter (\<lambda>s. Token s \<noteq> tok) (sessions w)\<rparr>"
    by (auto simp add: DeleteSession_def split: if_splits)
  have "filter (\<lambda>s. Token s = tok \<and> now < ExpiresAt s) (filter (\<lambda>s. Token s \<noteq> tok) (sessions w)) = []"
    by (induction "sessions w") (auto simp add: filter_empty_conv)
  then show ?thesis using up by (simp add: w2 GetSessionByToken_def)
qed

lemma Login_OK_D:
  assumes "AuthHandler_Login cfg now r w = ((StatusOK, TokenPairBody pair), w')"
  shows "\<exists>creds sid wm wc.
     Body r = Some creds \<and> json_field creds ''email'' \<noteq> [] \<and>
     AuthHandler_issueTokens cfg now (''user-'' @ json_field creds ''email'')
        (json_field creds ''email'') = Inr pair \<and>
     CreateSession wm \<lparr>ID = sid, UserID = ''user-'' @ json_field creds ''email'',
        Token = AccessToken pair, ExpiresAt = now + JWTExpiry cfg, CreatedAt = now\<rparr> = (None, wc) \<and>
     sessions w' = sessions wc \<and> db_up w' = db_up wc"
  using assms
  apply (simp add: AuthHandler_Login_def Let_def writeError_def writeJSON_def status_defs
      split: if_splits option.splits prod.splits sum.splits)
  apply (auto simp add: CacheSession_def redis_Set_def split: if_splits)
     apply blast+
  done


lemma DeleteSession_up: "db_up w \<Longrightarrow> fst (DeleteSession w tok) = None"
  by (simp add: DeleteSession_def)

lemma GetSessionByToken_sessions:
  "sessions w = sessions v \<Longrightarrow> db_up w = db_up v \<Longrightarrow>
   GetSessionByToken w now tok = GetSessionByToken v now tok"
  by (simp add: GetSessionByToken_def)

subsection \<open>Claim C8\<close>

text \<open>
  C8. After a successful \<^verbatim>\<open>CreateSession\<close>, \<^verbatim>\<open>GetSessionByToken\<close> with the session's
  token returns that session as long as \<open>now < expires_at\<close> and "not found" from
  \<open>expires_at\<close> on, with the row still in the table; \<^verbatim>\<open>DeleteSession\<close> with the
  token succeeds and the lookup is "not found" afterwards. The same holds for the
  session that a successful \<^verbatim>\<open>Login\<close> creates, whose token is the access token and
  whose expiry is the login instant plus the configured lifetime.
\<close>

theorem session_round_trip:
  "(CreateSession w s = (None, w1) \<longrightarrow>
      (now < ExpiresAt s \<longrightarrow> GetSessionByToken w1 now (Token s) = Inr s) \<and>
      (ExpiresAt s \<le> now \<longrightarrow> GetSessionByToken w1 now (Token s) = Inl session_not_found) \<and>
      fst (DeleteSession w1 (Token s)) = None \<and>
      GetSessionByToken (snd (DeleteSession w1 (Token s))) now (Token s) =
        Inl session_not_found) \<and>
   (AuthHandler_Login cfg t0 r v = ((StatusOK, TokenPairBody pair), v') \<longrightarrow>
      (now < t0 + JWTExpiry cfg \<longrightarrow>
         (\<exists>s'. GetSessionByToken v' now (AccessToken pair) = Inr s' \<and>
               Token s' = AccessToken pair \<and> ExpiresAt s' = t0 + JWTExpiry cfg)) \<and>
      (t0 + JWTExpiry cfg \<le> now \<longrightarrow>
         GetSessionByToken v' now (AccessToken pair) = Inl session_not_found) \<and>
      fst (DeleteSession v' (AccessToken pair)) = None \<and>
      GetSessionByToken (snd (DeleteSession v' (AccessToken pair))) now (AccessToken pair) =
        Inl session_not_found)"
proof (intro conjI impI)
  assume c: "CreateSession w s = (None, w1)"
  have up: "db_up w1" using CreateSession_None_D [OF c] by simp
  show "now < ExpiresAt s \<Longrightarrow> GetSessionByToken w1 now (Token s) = Inr s"
    by (simp add: GetSessionByToken_created [OF c])
  show "ExpiresAt s \<le> now \<Longrightarrow> GetSessionByToken w1 now (Token s) = Inl session_not_found"
    by (simp add: GetSessionByToken_created [OF c])
  show d: "fst (DeleteSession w1 (Token s)) = None"
    using up by (rule DeleteSession_up)
  show "GetSessionByToken (snd (DeleteSession w1 (Token s))) now (Token s) = Inl session_not_found"
    using GetSessionByToken_deleted [of w1 "Token s" "snd (DeleteSession w1 (Token s))" now] d
    by (simp add: prod_eq_iff)
next
  assume l: "AuthHandler_Login cfg t0 r v = ((StatusOK, TokenPairBody pair), v')"
  from Login_OK_D [OF l] obtain creds sid wm wc where
    c: "CreateSession wm \<lparr>ID = sid, UserID = ''user-'' @ json_field creds ''email'',
        Token = AccessToken pair, ExpiresAt = t0 + JWTExpiry cfg, CreatedAt = t0\<rparr> = (None, wc)"
    and ss: "sessions v' = sessions wc" and du: "db_up v' = db_up wc"
    by blast
  let ?s = "\<lparr>ID = sid, UserID = ''user-'' @ json_field creds ''email'',
        Token = AccessToken pair, ExpiresAt = t0 + JWTExpiry cfg, CreatedAt = t0\<rparr>"
  have up: "db_up wc" using CreateSession_None_D [OF c] by simp
  have g: "GetSessionByToken v' now (AccessToken pair) =
      (if now < t0 + JWTExpiry cfg then Inr ?s else Inl session_not_found)"
    using GetSessionByToken_created [OF c, of now] GetSessionByToken_sessions [OF ss du]
    by simp
  show "now < t0 + JWTExpiry cfg \<Longrightarrow>
      \<exists>s'. GetSessionByToken v' now (AccessToken pair) = Inr s' \<and>
           Token s' = AccessToken pair \<and> ExpiresAt s' = t0 + JWTExpiry cfg"
    by (simp add: g)
  show "t0 + JWTExpiry cfg \<le> now \<Longrightarrow>
      GetSessionByToken v' now (AccessToken pair) = Inl session_not_found"
    by (simp add: g)
  show d: "fst (DeleteSession v' (AccessToken pair)) = None"
    using up du by (simp add: DeleteSession_up)
  show "GetSessionByToken (snd (DeleteSession v' (AccessToken pair))) now (AccessToken pair) =
      Inl session_not_found"
    using GetSessionByToken_deleted
      [of v' "AccessToken pair" "snd (DeleteSession v' (AccessToken pair))" now] d
    by (simp add: prod_eq_iff)
qed


lemma RecordLoginAttempt_frame:
  "sessions (snd (RecordLoginAttempt w a)) = sessions w \<and>
   db_up (snd (RecordLoginAttempt w a)) = db_up w \<and>
   entropy (snd (RecordLoginAttempt w a)) = entropy w \<and>
   drawn (snd (RecordLoginAttempt w a)) = drawn w"
  by (simp add: RecordLoginAttempt_def)

lemma Login_OK_I:
  assumes "ReqMethod r = ''POST''" and "Body r = Some creds"
    and "json_field creds ''email'' = email" and "email \<noteq> []"
    and "json_field creds ''password'' \<noteq> []"
    and "db_up w"
    and "fst (GetRecentFailedAttempts w email (now - 15 * Minute)) < 5"
    and "AuthHandler_issueTokens cfg now (''user-'' @ email) email = Inr pair"
    and "entropy w (Suc (drawn w)) \<notin> set (map ID (sessions w))"
    and "AccessToken pair \<notin> set (map Token (sessions w))"
    and "length (entropy w (Suc (drawn w))) \<le> 64" and "length (''user-'' @ email) \<le> 64"
  shows "fst (AuthHandler_Login cfg now r w) = (StatusOK, TokenPairBody pair)"
proof -
  obtain n e where g: "GetRecentFailedAttempts w email (now - 15 * Minute) = (n, e)"
    by (cases "GetRecentFailedAttempts w email (now - 15 * Minute)")
  have e: "e = None" using g assms(6) by (simp add: GetRecentFailedAttempts_def)
  have n: "\<not> 5 \<le> n" using g assms(7) by simp
  let ?a = "\<lparr>AttemptID = entropy w (drawn w), AttemptEmail = email, Success = True,
             IPAddress = RemoteAddr r, AttemptCreatedAt = now\<rparr>"
  obtain e2 w3 where ra: "RecordLoginAttempt (w\<lparr>drawn := Suc (drawn w)\<rparr>) ?a = (e2, w3)"
    by (cases "RecordLoginAttempt (w\<lparr>drawn := Suc (drawn w)\<rparr>) ?a")
  have fr: "sessions w3 = sessions w" "db_up w3" "entropy w3 = entropy w" "drawn w3 = Suc (drawn w)"
    using RecordLoginAttempt_frame [of "w\<lparr>drawn := Suc (drawn w)\<rparr>" ?a] ra assms(6) by simp_all
  show ?thesis
    using assms(1-5,8-12) g e n ra fr
    by (cases e2)
       (simp_all add: AuthHandler_Login_def Let_def generateID_def log_Printf_def
          CreateSession_def CacheSession_def redis_Set_def writeJSON_def)
qed


lemma issueTokens_projr:
  "AuthHandler_issueTokens cfg now userID email =
     Inr (projr (AuthHandler_issueTokens cfg now userID email))"
  using issueTokens_signed [of cfg now userID email] by auto

theorem session_round_trip_witness:
  "let cfg = \<lparr>JWTSecret = ''k'', JWTExpiry = 15 * Minute\<rparr>;
       w0 = fresh_world (\<lambda>n. replicate (Suc n) CHR ''a'');
       s0 = \<lparr>ID = ''s1'', UserID = ''u1'', Token = ''t1'', ExpiresAt = 100, CreatedAt = 0\<rparr>;
       w1 = snd (CreateSession w0 s0);
       r = \<lparr>ReqMethod = ''POST'', Authorization = [], RemoteAddr = ''10.0.0.1:4000'',
            Body = Some [(''email'', ''a@b.com''), (''password'', ''x'')], ctx_claims = None\<rparr>;
       pair = projr (AuthHandler_issueTokens cfg 0 ''user-a@b.com'' ''a@b.com'');
       v' = snd (AuthHandler_Login cfg 0 r w0)
   in GetSessionByToken w1 50 ''t1'' = Inr s0 \<and>
      GetSessionByToken w1 100 ''t1'' = Inl session_not_found \<and>
      GetSessionByToken (snd (DeleteSession w1 ''t1'')) 50 ''t1'' = Inl session_not_found \<and>
      fst (AuthHandler_Login cfg 0 r w0) = (StatusOK, TokenPairBody pair) \<and>
      ExpiresAt (projr (GetSessionByToken v' Minute (AccessToken pair))) = 15 * Minute \<and>
      GetSessionByToken v' (15 * Minute) (AccessToken pair) = Inl session_not_found \<and>
      GetSessionByToken (snd (DeleteSession v' (AccessToken pair))) Minute (AccessToken pair) =
        Inl session_not_found"
proof -
  define cfg where "cfg = \<lparr>JWTSecret = ''k'', JWTExpiry = 15 * Minute\<rparr>"
  define w0 where "w0 = fresh_world (\<lambda>n. replicate (Suc n) CHR ''a'')"
  define s0 where "s0 = \<lparr>ID = ''s1'', UserID = ''u1'', Token = ''t1'', ExpiresAt = 100, CreatedAt = 0\<rparr>"
  define w1 where "w1 = snd (CreateSession w0 s0)"
  define r where "r = \<lparr>ReqMethod = ''POST'', Authorization = [], RemoteAddr = ''10.0.0.1:4000'',
            Body = Some [(''email'', ''a@b.com''), (''password'', ''x'')], ctx_claims = None\<rparr>"
  define pair where "pair = projr (AuthHandler_issueTokens cfg 0 ''user-a@b.com'' ''a@b.com'')"
  define v' where "v' = snd (AuthHandler_Login cfg 0 r w0)"
  have c: "CreateSession w0 s0 = (None, w1)"
    by (simp add: w1_def w0_def s0_def fresh_world_def CreateSession_def)
  have it: "AuthHandler_issueTokens cfg 0 (''user-'' @ ''a@b.com'') ''a@b.com'' = Inr pair"
    unfolding pair_def using issueTokens_projr [of cfg 0 "''user-a@b.com''" "''a@b.com''"] by simp
  have "fst (AuthHandler_Login cfg 0 r w0) = (StatusOK, TokenPairBody pair)"
    by (rule Login_OK_I [where creds = "[(''email'', ''a@b.com''), (''password'', ''x'')]"
          and email = "''a@b.com''", OF _ _ _ _ _ _ _ it])
       (simp_all add: r_def json_field_def w0_def fresh_world_def GetRecentFailedAttempts_def)
  then have l: "AuthHandler_Login cfg 0 r w0 = ((StatusOK, TokenPairBody pair), v')"
    by (simp add: v'_def prod_eq_iff)
  note inst = session_round_trip [of w0 s0 w1 _ cfg 0 r w0 pair v']
  have e: "JWTExpiry cfg = 15 * Minute" by (simp add: cfg_def)
  have m: "(0::int) < Minute" by (simp add: Minute_def Second_def)
  have a1: "GetSessionByToken w1 50 ''t1'' = Inr s0"
    using inst [of 50] c by (simp add: s0_def)
  have a2: "GetSessionByToken w1 100 ''t1'' = Inl session_not_found"
    using inst [of 100] c by (simp add: s0_def)
  have a3: "GetSessionByToken (snd (DeleteSession w1 ''t1'')) 50 ''t1'' = Inl session_not_found"
    using inst [of 50] c by (simp add: s0_def)
  have a4: "fst (AuthHandler_Login cfg 0 r w0) = (StatusOK, TokenPairBody pair)"
    using l by simp
  have a5: "ExpiresAt (projr (GetSessionByToken v' Minute (AccessToken pair))) = 15 * Minute"
    using inst [of Minute] l e m by auto
  have a6: "GetSessionByToken v' (15 * Minute) (AccessToken pair) = Inl session_not_found"
    using inst [of "15 * Minute"] l e by simp
  have a7: "GetSessionByToken (snd (DeleteSession v' (AccessToken pair))) Minute (AccessToken pair) =
        Inl session_not_found"
    using inst [of Minute] l by simp
  from a1 a2 a3 a4 a5 a6 a7 show ?thesis
    unfolding Let_def cfg_def [symmetric] w0_def [symmetric] s0_def [symmetric]
      w1_def [symmetric] r_def [symmetric] pair_def [symmetric] v'_def [symmetric]
    by simp
qed

lemma SplitN2_Bearer: "SplitN2 (''Bearer '' @ tok) = [''Bearer'', tok]"
  by (simp add: SplitN2_def)

lemma EqualFold_Bearer: "EqualFold ''Bearer'' ''bearer''"
  by code_simp

lemma JWTAuth_Bearer:
  "Authorization r = ''Bearer '' @ tok \<Longrightarrow>
   JWTAuth secret next now r w =
     (case jwt_Parse now tok (keyFunc secret) of
        Inl err \<Rightarrow> (http_Error ''{\"error\":\"invalid or expired token\"}'' StatusUnauthorized, w)
      | Inr token \<Rightarrow>
          next now (r\<lparr>ctx_claims := Some \<lparr>ClaimsUserID = getString (TokenClaims token) ''user_id'',
                                         ClaimsEmail = getString (TokenClaims token) ''email''\<rparr>\<rparr>) w)"
  by (auto simp add: JWTAuth_def Let_def SplitN2_Bearer [simplified] EqualFold_Bearer
      split: sum.splits dest: jwt_Parse_Inr_Valid)

lemma JWTAuth_decision:
  "\<exists>d. \<forall>next r w. Authorization r = hdr \<longrightarrow>
     JWTAuth secret next now r w =
       (case d of Inl resp \<Rightarrow> (resp, w)
        | Inr c \<Rightarrow> next now (r\<lparr>ctx_claims := Some c\<rparr>) w)"
proof (cases "hdr = []")
  case True
  then show ?thesis
    by (intro exI [of _ "Inl (http_Error ''{\"error\":\"missing authorization header\"}'' StatusUnauthorized)"])
       (simp add: JWTAuth_def)
next
  case ne: False
  show ?thesis
  proof (cases "length (SplitN2 hdr) \<noteq> 2 \<or> \<not> EqualFold (SplitN2 hdr ! 0) ''bearer''")
    case True
    with ne show ?thesis
      by (intro exI [of _ "Inl (http_Error ''{\"error\":\"invalid authorization format\"}'' StatusUnauthorized)"])
         (auto simp add: JWTAuth_def Let_def)
  next
    case fmt: False
    show ?thesis
    proof (cases "jwt_Parse now (SplitN2 hdr ! 1) (keyFunc secret)")
      case (Inl err)
      with ne fmt show ?thesis
        by (intro exI [of _ "Inl (http_Error ''{\"error\":\"invalid or expired token\"}'' StatusUnauthorized)"])
           (auto simp add: JWTAuth_def Let_def)
    next
      case (Inr token)
      then have "Valid token" by (rule jwt_Parse_Inr_Valid)
      with ne fmt Inr show ?thesis
        by (intro exI [of _ "Inr \<lparr>ClaimsUserID = getString (TokenClaims token) ''user_id'',
                                    ClaimsEmail = getString (TokenClaims token) ''email''\<rparr>"])
           (auto simp add: JWTAuth_def Let_def)
    qed
  qed
qed

lemma prefixes_differ: "blacklistPrefix @ a \<noteq> sessionCachePrefix @ b"
  by (simp add: blacklistPrefix_def sessionCachePrefix_def)

lemma prefixes_neq: "blacklistPrefix \<noteq> sessionCachePrefix"
  by (simp add: blacklistPrefix_def sessionCachePrefix_def)

lemma Logout_response:
  "ReqMethod r = ''POST'' \<Longrightarrow> ctx_claims r = Some c \<Longrightarrow>
   fst (AuthHandler_Logout cfg now r w) = (StatusOK, MessageBody ''logged out successfully'')"
  by (simp add: AuthHandler_Logout_def GetClaims_def Let_def writeJSON_def split: prod.splits)

lemma Logout_blacklist_entry:
  assumes "ReqMethod r = ''POST''" and "ctx_claims r = Some c" and "redis_up w"
    and "Authorization r = ''Bearer '' @ tok" and "tok \<noteq> []"
  shows "redis (snd (AuthHandler_Logout cfg now r w)) (blacklistPrefix @ tok) =
     Some (''1'', if 0 < JWTExpiry cfg then Some (now + JWTExpiry cfg) else None)"
    and "redis_up (snd (AuthHandler_Logout cfg now r w))"
  using assms
  by (simp_all add: AuthHandler_Logout_def GetClaims_def Let_def BlacklistToken_def redis_Set_def
        DeleteSession_def InvalidateCachedSession_def redis_Del_def log_Printf_def
        prefixes_differ prefixes_neq)


lemma RefreshToken_OK_D:
  assumes "ReqMethod r = ''POST''" and "Body r = Some req"
    and "json_field req ''refresh_token'' = tok"
    and "fst (fst (AuthHandler_RefreshToken cfg now r w)) = StatusOK"
  shows "tok \<noteq> []" and "IsTokenBlacklisted w now tok = (False, None)"
    and "\<exists>token. jwt_Parse now tok (keyFunc (JWTSecret cfg)) = Inr token \<and>
           getStringClaim (TokenClaims token) ''type'' = ''refresh''"
    and "snd (AuthHandler_RefreshToken cfg now r w) = snd (BlacklistToken w now tok (7 * 24 * Hour))"
proof -
  show ne: "tok \<noteq> []"
    using assms
    by (auto simp add: AuthHandler_RefreshToken_def Let_def writeError_def writeJSON_def status_defs)
  note eq = RefreshToken_eq [OF assms(1,2,3) ne, of cfg now w]
  obtain b e where ib: "IsTokenBlacklisted w now tok = (b, e)"
    by (cases "IsTokenBlacklisted w now tok")
  from assms(4) show "IsTokenBlacklisted w now tok = (False, None)"
    unfolding eq ib
    by (cases e) (auto simp add: writeError_def writeJSON_def status_defs split: if_splits)
  from assms(4) show "\<exists>token. jwt_Parse now tok (keyFunc (JWTSecret cfg)) = Inr token \<and>
           getStringClaim (TokenClaims token) ''type'' = ''refresh''"
    unfolding eq ib
    by (cases e; cases "jwt_Parse now tok (keyFunc (JWTSecret cfg))")
       (auto simp add: writeError_def writeJSON_def status_defs split: if_splits)
  from assms(4) show "snd (AuthHandler_RefreshToken cfg now r w) =
      snd (BlacklistToken w now tok (7 * 24 * Hour))"
    unfolding eq ib
    by (cases e; cases "jwt_Parse now tok (keyFunc (JWTSecret cfg))")
       (auto simp add: writeError_def writeJSON_def status_defs split: if_splits sum.splits)
qed

lemma IsTokenBlacklisted_None_up: "IsTokenBlacklisted w now tok = (b, None) \<Longrightarrow> redis_up w"
  by (cases "redis_up w") (simp_all add: IsTokenBlacklisted_down)

lemma issued_exp_claims:
  assumes "AuthHandler_issueTokens cfg t0 userID email = Inr pair"
  shows "\<exists>tk. ParseUnverified (AccessToken pair) = Some tk \<and>
           map_of (TokenClaims tk) ''exp'' = Some (JNumber (Unix (t0 + JWTExpiry cfg)))"
    and "\<exists>tk. ParseUnverified (RefreshToken pair) = Some tk \<and>
           map_of (TokenClaims tk) ''exp'' = Some (JNumber (Unix (t0 + 7 * 24 * Hour)))"
  using issueTokens_signed [of cfg t0 userID email] assms
  by (auto dest!: ParseUnverified_SignedString simp add: jwt_NewWithClaims_def)

lemma RefreshToken_OK_entry:
  assumes "ReqMethod rr = ''POST''" and "Body rr = Some req"
    and "json_field req ''refresh_token'' = tok"
    and "fst (fst (AuthHandler_RefreshToken cfg now rr w)) = StatusOK"
  shows "redis (snd (AuthHandler_RefreshToken cfg now rr w)) (blacklistPrefix @ tok) =
     Some (''1'', Some (now + 7 * 24 * Hour))"
proof -
  note d = RefreshToken_OK_D [OF assms]
  have h: "(0::int) < 7 * 24 * Hour" by (simp add: Hour_def Minute_def Second_def)
  from d(2) have "redis_up w" by (rule IsTokenBlacklisted_None_up)
  then show ?thesis using h by (simp add: d(4) BlacklistToken_up)
qed

subsection \<open>Claim C3\<close>

text \<open>
  C3, as amended. The time to live that \<^verbatim>\<open>Logout\<close> and \<^verbatim>\<open>RefreshToken\<close> pass to
  \<^verbatim>\<open>BlacklistToken\<close> is a fixed duration that does not depend on the revoked token's
  \<open>exp\<close> claim: \<^verbatim>\<open>Logout\<close> passes the configured access lifetime \<open>JWTExpiry\<close> (an entry
  without expiry when that is not positive), a successful \<^verbatim>\<open>RefreshToken\<close> passes 7
  days. Only on two paths is that duration at least the remaining lifetime of a token
  that this service issued under the same configuration: when \<^verbatim>\<open>Logout\<close> revokes
  the access token of the pair, and when a successful \<^verbatim>\<open>RefreshToken\<close> revokes its
  refresh token, at or after the issue; there the entry lasts at least until the
  token's \<open>exp\<close>. Nothing of the kind holds for another token on the same handler:
  \<^verbatim>\<open>JWTAuth\<close> does not read the \<open>type\<close> claim, and a refresh token sent as Bearer
  to \<^verbatim>\<open>Logout\<close> is blacklisted for \<open>JWTExpiry\<close> only.
\<close>

theorem blacklist_ttl_fixed_durations:
  "(ReqMethod r = ''POST'' \<and> ctx_claims r = Some c \<and> redis_up w \<and>
    Authorization r = ''Bearer '' @ tok \<and> tok \<noteq> [] \<longrightarrow>
      redis (snd (AuthHandler_Logout cfg now r w)) (blacklistPrefix @ tok) =
        Some (''1'', if 0 < JWTExpiry cfg then Some (now + JWTExpiry cfg) else None)) \<and>
   (ReqMethod rr = ''POST'' \<and> Body rr = Some req \<and> json_field req ''refresh_token'' = tok \<and>
    fst (fst (AuthHandler_RefreshToken cfg now rr w)) = StatusOK \<longrightarrow>
      redis (snd (AuthHandler_RefreshToken cfg now rr w)) (blacklistPrefix @ tok) =
        Some (''1'', Some (now + 7 * 24 * Hour))) \<and>
   (AuthHandler_issueTokens cfg t0 userID email = Inr pair \<and> t0 \<le> now \<and>
    ReqMethod r = ''POST'' \<and> ctx_claims r = Some c \<and> redis_up w \<and>
    Authorization r = ''Bearer '' @ AccessToken pair \<longrightarrow>
      (\<exists>tk e dl. ParseUnverified (AccessToken pair) = Some tk \<and>
          map_of (TokenClaims tk) ''exp'' = Some (JNumber e) \<and>
          redis (snd (AuthHandler_Logout cfg now r w)) (blacklistPrefix @ AccessToken pair) =
            Some (''1'', dl) \<and>
          (dl = None \<or> (\<exists>d. dl = Some d \<and> e * Second \<le> d)))) \<and>
   (AuthHandler_issueTokens cfg t0 userID email = Inr pair \<and> t0 \<le> now \<and>
    ReqMethod rr = ''POST'' \<and> Body rr = Some req \<and>
    json_field req ''refresh_token'' = RefreshToken pair \<and>
    fst (fst (AuthHandler_RefreshToken cfg now rr w)) = StatusOK \<longrightarrow>
      (\<exists>tk e d. ParseUnverified (RefreshToken pair) = Some tk \<and>
          map_of (TokenClaims tk) ''exp'' = Some (JNumber e) \<and>
          redis (snd (AuthHandler_RefreshToken cfg now rr w))
              (blacklistPrefix @ RefreshToken pair) = Some (''1'', Some d) \<and>
          e * Second \<le> d))"
proof (intro conjI impI)
  assume "ReqMethod r = ''POST'' \<and> ctx_claims r = Some c \<and> redis_up w \<and>
    Authorization r = ''Bearer '' @ tok \<and> tok \<noteq> []"
  then show "redis (snd (AuthHandler_Logout cfg now r w)) (blacklistPrefix @ tok) =
        Some (''1'', if 0 < JWTExpiry cfg then Some (now + JWTExpiry cfg) else None)"
    using Logout_blacklist_entry(1) [of r c w tok cfg now] by blast
next
  assume a: "ReqMethod rr = ''POST'' \<and> Body rr = Some req \<and>
    json_field req ''refresh_token'' = tok \<and>
    fst (fst (AuthHandler_RefreshToken cfg now rr w)) = StatusOK"
  then show "redis (snd (AuthHandler_RefreshToken cfg now rr w)) (blacklistPrefix @ tok) =
        Some (''1'', Some (now + 7 * 24 * Hour))"
    by (intro RefreshToken_OK_entry [where req = req]) blast+
next
  assume a: "AuthHandler_issueTokens cfg t0 userID email = Inr pair \<and> t0 \<le> now \<and>
    ReqMethod r = ''POST'' \<and> ctx_claims r = Some c \<and> redis_up w \<and>
    Authorization r = ''Bearer '' @ AccessToken pair"
  then have it: "AuthHandler_issueTokens cfg t0 userID email = Inr pair" by blast
  have ne: "AccessToken pair \<noteq> []" using issued_tokens_not_Nil(1) [OF it] .
  have le: "Unix (t0 + JWTExpiry cfg) * Second \<le> now + JWTExpiry cfg"
    using Unix_mult_le [of "t0 + JWTExpiry cfg"] a by linarith
  from issued_exp_claims(1) [OF it] obtain tk where
    tk: "ParseUnverified (AccessToken pair) = Some tk"
      "map_of (TokenClaims tk) ''exp'' = Some (JNumber (Unix (t0 + JWTExpiry cfg)))"
    by blast
  have en: "redis (snd (AuthHandler_Logout cfg now r w)) (blacklistPrefix @ AccessToken pair) =
      Some (''1'', if 0 < JWTExpiry cfg then Some (now + JWTExpiry cfg) else None)"
    using a ne Logout_blacklist_entry(1) [of r c w "AccessToken pair" cfg now] by blast
  show "\<exists>tk e dl. ParseUnverified (AccessToken pair) = Some tk \<and>
          map_of (TokenClaims tk) ''exp'' = Some (JNumber e) \<and>
          redis (snd (AuthHandler_Logout cfg now r w)) (blacklistPrefix @ AccessToken pair) =
            Some (''1'', dl) \<and>
          (dl = None \<or> (\<exists>d. dl = Some d \<and> e * Second \<le> d))"
    using tk en le by (cases "0 < JWTExpiry cfg") auto
next
  assume a: "AuthHandler_issueTokens cfg t0 userID email = Inr pair \<and> t0 \<le> now \<and>
    ReqMethod rr = ''POST'' \<and> Body rr = Some req \<and>
    json_field req ''refresh_token'' = RefreshToken pair \<and>
    fst (fst (AuthHandler_RefreshToken cfg now rr w)) = StatusOK"
  then have it: "AuthHandler_issueTokens cfg t0 userID email = Inr pair" by blast
  have le: "Unix (t0 + 7 * 24 * Hour) * Second \<le> now + 7 * 24 * Hour"
    using Unix_mult_le [of "t0 + 7 * 24 * Hour"] a by linarith
  from issued_exp_claims(2) [OF it] obtain tk where
    tk: "ParseUnverified (RefreshToken pair) = Some tk"
      "map_of (TokenClaims tk) ''exp'' = Some (JNumber (Unix (t0 + 7 * 24 * Hour)))"
    by blast
  have en: "redis (snd (AuthHandler_RefreshToken cfg now rr w))
      (blacklistPrefix @ RefreshToken pair) = Some (''1'', Some (now + 7 * 24 * Hour))"
    using a by (intro RefreshToken_OK_entry [where req = req]) blast+
  show "\<exists>tk e d. ParseUnverified (RefreshToken pair) = Some tk \<and>
          map_of (TokenClaims tk) ''exp'' = Some (JNumber e) \<and>
          redis (snd (AuthHandler_RefreshToken cfg now rr w))
              (blacklistPrefix @ RefreshToken pair) = Some (''1'', Some d) \<and>
          e * Second \<le> d"
    using tk en le by blast
qed

lemma IsTokenBlacklisted_fresh: "IsTokenBlacklisted (fresh_world ids) now tok = (False, None)"
  by (simp add: IsTokenBlacklisted_up fresh_world_def redis_live_def)

lemma RefreshToken_issued_OK:
  assumes "AuthHandler_issueTokens cfg t0 userID email = Inr pair"
    and "ReqMethod r = ''POST''" and "Body r = Some req"
    and "json_field req ''refresh_token'' = RefreshToken pair"
    and "IsTokenBlacklisted w now (RefreshToken pair) = (False, None)"
    and "now < Unix (t0 + 7 * 24 * Hour) * Second"
  shows "AuthHandler_RefreshToken cfg now r w =
     (writeJSON StatusOK (TokenPairBody (projr (AuthHandler_issueTokens cfg now userID email))),
      snd (BlacklistToken w now (RefreshToken pair) (7 * 24 * Hour)))"
proof -
  have ne: "RefreshToken pair \<noteq> []" using issued_tokens_not_Nil(2) [OF assms(1)] .
  obtain pair' where p: "AuthHandler_issueTokens cfg now userID email = Inr pair'"
    using issueTokens_projr [of cfg now userID email] by blast
  show ?thesis
    using assms(5,6) p
    by (simp add: RefreshToken_eq [OF assms(2,3,4) ne] parse_refresh_token [OF assms(1)]
          getStringClaim_def)
qed

theorem blacklist_ttl_fixed_durations_witness:
  "let cfg = \<lparr>JWTSecret = ''k'', JWTExpiry = 15 * Minute\<rparr>;
       pair = projr (AuthHandler_issueTokens cfg 0 ''user-a@b.com'' ''a@b.com'');
       w0 = fresh_world enc_nat;
       r = \<lparr>ReqMethod = ''POST'', Authorization = ''Bearer '' @ AccessToken pair,
            RemoteAddr = ''10.0.0.1:4000'', Body = None,
            ctx_claims = Some \<lparr>ClaimsUserID = ''user-a@b.com'', ClaimsEmail = ''a@b.com''\<rparr>\<rparr>;
       rr = \<lparr>ReqMethod = ''POST'', Authorization = [], RemoteAddr = ''10.0.0.1:4000'',
             Body = Some [(''refresh_token'', RefreshToken pair)], ctx_claims = None\<rparr>
   in redis (snd (AuthHandler_Logout cfg (10 * Minute) r w0)) (blacklistPrefix @ AccessToken pair) =
        Some (''1'', Some (10 * Minute + 15 * Minute)) \<and>
      fst (fst (AuthHandler_RefreshToken cfg (10 * Minute) rr w0)) = StatusOK \<and>
      redis (snd (AuthHandler_RefreshToken cfg (10 * Minute) rr w0))
          (blacklistPrefix @ RefreshToken pair) =
        Some (''1'', Some (10 * Minute + 7 * 24 * Hour)) \<and>
      (\<exists>tk e d. ParseUnverified (AccessToken pair) = Some tk \<and>
          map_of (TokenClaims tk) ''exp'' = Some (JNumber e) \<and>
          redis (snd (AuthHandler_Logout cfg (10 * Minute) r w0))
              (blacklistPrefix @ AccessToken pair) = Some (''1'', Some d) \<and>
          e * Second \<le> d) \<and>
      (\<exists>tk e d. ParseUnverified (RefreshToken pair) = Some tk \<and>
          map_of (TokenClaims tk) ''exp'' = Some (JNumber e) \<and>
          redis (snd (AuthHandler_RefreshToken cfg (10 * Minute) rr w0))
              (blacklistPrefix @ RefreshToken pair) = Some (''1'', Some d) \<and>
          e * Second \<le> d)"
proof -
  define cfg where "cfg = \<lparr>JWTSecret = ''k'', JWTExpiry = 15 * Minute\<rparr>"
  define pair where "pair = projr (AuthHandler_issueTokens cfg 0 ''user-a@b.com'' ''a@b.com'')"
  define w0 where "w0 = fresh_world enc_nat"
  define r where "r = \<lparr>ReqMethod = ''POST'', Authorization = ''Bearer '' @ AccessToken pair,
            RemoteAddr = ''10.0.0.1:4000'', Body = None,
            ctx_claims = Some \<lparr>ClaimsUserID = ''user-a@b.com'', ClaimsEmail = ''a@b.com''\<rparr>\<rparr>"
  define rr where "rr = \<lparr>ReqMethod = ''POST'', Authorization = [], RemoteAddr = ''10.0.0.1:4000'',
             Body = Some [(''refresh_token'', RefreshToken pair)], ctx_claims = None\<rparr>"
  have it: "AuthHandler_issueTokens cfg 0 ''user-a@b.com'' ''a@b.com'' = Inr pair"
    unfolding pair_def by (rule issueTokens_projr)
  have ne: "AccessToken pair \<noteq> []" using issued_tokens_not_Nil(1) [OF it] .
  have e: "JWTExpiry cfg = 15 * Minute" by (simp add: cfg_def)
  have m: "(0::int) < Minute" by (simp add: Minute_def Second_def)
  have ok: "AuthHandler_RefreshToken cfg (10 * Minute) rr w0 =
     (writeJSON StatusOK (TokenPairBody (projr (AuthHandler_issueTokens cfg (10 * Minute)
         ''user-a@b.com'' ''a@b.com''))),
      snd (BlacklistToken w0 (10 * Minute) (RefreshToken pair) (7 * 24 * Hour)))"
    by (rule RefreshToken_issued_OK [OF it, where req = "[(''refresh_token'', RefreshToken pair)]"])
       (simp_all add: rr_def json_field_def w0_def IsTokenBlacklisted_fresh
          Unix_def Hour_def Minute_def Second_def)
  have st: "fst (fst (AuthHandler_RefreshToken cfg (10 * Minute) rr w0)) = StatusOK"
    by (simp add: ok writeJSON_def)
  note inst1 = blacklist_ttl_fixed_durations [where r = r
      and c = "\<lparr>ClaimsUserID = ''user-a@b.com'', ClaimsEmail = ''a@b.com''\<rparr>" and w = w0
      and tok = "AccessToken pair" and cfg = cfg and now = "10 * Minute"]
  note inst2 = blacklist_ttl_fixed_durations [where rr = rr
      and req = "[(''refresh_token'', RefreshToken pair)]" and w = w0
      and tok = "RefreshToken pair" and cfg = cfg and now = "10 * Minute"]
  note inst3 = blacklist_ttl_fixed_durations [where cfg = cfg and now = "10 * Minute"
      and ?t0.0 = 0 and userID = "''user-a@b.com''" and email = "''a@b.com''" and pair = pair
      and r = r and c = "\<lparr>ClaimsUserID = ''user-a@b.com'', ClaimsEmail = ''a@b.com''\<rparr>"
      and w = w0 and rr = rr and req = "[(''refresh_token'', RefreshToken pair)]"]
  have a1: "redis (snd (AuthHandler_Logout cfg (10 * Minute) r w0)) (blacklistPrefix @ AccessToken pair) =
        Some (''1'', Some (10 * Minute + 15 * Minute))"
  proof -
    have "ReqMethod r = ''POST'' \<and>
        ctx_claims r = Some \<lparr>ClaimsUserID = ''user-a@b.com'', ClaimsEmail = ''a@b.com''\<rparr> \<and>
        redis_up w0 \<and> Authorization r = ''Bearer '' @ AccessToken pair \<and> AccessToken pair \<noteq> []"
      using ne by (simp add: r_def w0_def fresh_world_def)
    with inst1 [THEN conjunct1] e m show ?thesis by simp
  qed
  have a2: "redis (snd (AuthHandler_RefreshToken cfg (10 * Minute) rr w0))
          (blacklistPrefix @ RefreshToken pair) =
        Some (''1'', Some (10 * Minute + 7 * 24 * Hour))"
  proof -
    have "ReqMethod rr = ''POST'' \<and> Body rr = Some [(''refresh_token'', RefreshToken pair)] \<and>
        json_field [(''refresh_token'', RefreshToken pair)] ''refresh_token'' = RefreshToken pair \<and>
        fst (fst (AuthHandler_RefreshToken cfg (10 * Minute) rr w0)) = StatusOK"
      using st by (simp add: rr_def json_field_def)
    with inst2 [THEN conjunct2, THEN conjunct1] show ?thesis by blast
  qed
  have a3: "\<exists>tk e d. ParseUnverified (AccessToken pair) = Some tk \<and>
          map_of (TokenClaims tk) ''exp'' = Some (JNumber e) \<and>
          redis (snd (AuthHandler_Logout cfg (10 * Minute) r w0))
              (blacklistPrefix @ AccessToken pair) = Some (''1'', Some d) \<and>
          e * Second \<le> d"
  proof -
    have "AuthHandler_issueTokens cfg 0 ''user-a@b.com'' ''a@b.com'' = Inr pair \<and>
        0 \<le> 10 * Minute \<and> ReqMethod r = ''POST'' \<and>
        ctx_claims r = Some \<lparr>ClaimsUserID = ''user-a@b.com'', ClaimsEmail = ''a@b.com''\<rparr> \<and>
        redis_up w0 \<and> Authorization r = ''Bearer '' @ AccessToken pair"
      using it m by (simp add: r_def w0_def fresh_world_def)
    from inst3 [THEN conjunct2, THEN conjunct2, THEN conjunct1, rule_format, OF this]
    obtain tk e dl where
      x: "ParseUnverified (AccessToken pair) = Some tk"
        "map_of (TokenClaims tk) ''exp'' = Some (JNumber e)"
        "redis (snd (AuthHandler_Logout cfg (10 * Minute) r w0))
           (blacklistPrefix @ AccessToken pair) = Some (''1'', dl)"
        "dl = None \<or> (\<exists>d. dl = Some d \<and> e * Second \<le> d)"
      by blast
    from x(3) a1 have "dl = Some (10 * Minute + 15 * Minute)" by simp
    with x show ?thesis by auto
  qed
  have a4: "\<exists>tk e d. ParseUnverified (RefreshToken pair) = Some tk \<and>
          map_of (TokenClaims tk) ''exp'' = Some (JNumber e) \<and>
          redis (snd (AuthHandler_RefreshToken cfg (10 * Minute) rr w0))
              (blacklistPrefix @ RefreshToken pair) = Some (''1'', Some d) \<and>
          e * Second \<le> d"
  proof -
    have "AuthHandler_issueTokens cfg 0 ''user-a@b.com'' ''a@b.com'' = Inr pair \<and>
        0 \<le> 10 * Minute \<and> ReqMethod rr = ''POST'' \<and>
        Body rr = Some [(''refresh_token'', RefreshToken pair)] \<and>
        json_field [(''refresh_token'', RefreshToken pair)] ''refresh_token'' =
          RefreshToken pair \<and>
        fst (fst (AuthHandler_RefreshToken cfg (10 * Minute) rr w0)) = StatusOK"
      using it m st by (simp add: rr_def json_field_def)
    from inst3 [THEN conjunct2, THEN conjunct2, THEN conjunct2, rule_format, OF this]
    show ?thesis .
  qed
  from a1 st a2 a3 a4 show ?thesis
    unfolding Let_def cfg_def [symmetric] pair_def [symmetric] w0_def [symmetric]
      r_def [symmetric] rr_def [symmetric]
    by simp
qed

lemma JWTAuth_issued_refresh:
  assumes "AuthHandler_issueTokens cfg now userID email = Inr pair"
    and "Authorization r = ''Bearer '' @ RefreshToken pair"
  shows "JWTAuth (JWTSecret cfg) next t r w =
     (if Unix (now + 7 * 24 * Hour) = 0 \<or> t < Unix (now + 7 * 24 * Hour) * Second then
        next t (r\<lparr>ctx_claims := Some \<lparr>ClaimsUserID = userID, ClaimsEmail = email\<rparr>\<rparr>) w
      else (http_Error ''{\"error\":\"invalid or expired token\"}'' StatusUnauthorized, w))"
  by (simp add: JWTAuth_Bearer [OF assms(2)] parse_refresh_token [OF assms(1)] getString_def)

text \<open>
  The claim as stated fails: a token issued at 0 with a lifetime of 15 minutes and
  revoked by \<^verbatim>\<open>Logout\<close> at minute 10 has 5 minutes left (its \<open>exp\<close> is 900 s), and its
  blacklist entry is set to last 15 minutes, until minute 25. The refresh token of
  the same pair, sent as Bearer to the logout route at minute 10, passes \<^verbatim>\<open>JWTAuth\<close>
  and gets the same 15 minutes, although its \<open>exp\<close> is 7 days (604800 s) away.
\<close>

theorem blacklist_ttl_not_remaining_lifetime_counterexample:
  "redis (snd (AuthHandler_Logout \<lparr>JWTSecret = ''k'', JWTExpiry = 15 * Minute\<rparr> (10 * Minute)
       \<lparr>ReqMethod = ''POST'',
        Authorization = ''Bearer '' @ AccessToken (projr (AuthHandler_issueTokens
           \<lparr>JWTSecret = ''k'', JWTExpiry = 15 * Minute\<rparr> 0 ''user-a@b.com'' ''a@b.com'')),
        RemoteAddr = ''10.0.0.1:4000'', Body = None,
        ctx_claims = Some \<lparr>ClaimsUserID = ''user-a@b.com'', ClaimsEmail = ''a@b.com''\<rparr>\<rparr>
       (fresh_world enc_nat)))
     (blacklistPrefix @ AccessToken (projr (AuthHandler_issueTokens
           \<lparr>JWTSecret = ''k'', JWTExpiry = 15 * Minute\<rparr> 0 ''user-a@b.com'' ''a@b.com''))) =
     Some (''1'', Some (10 * Minute + 15 * Minute)) \<and>
   map_of (TokenClaims (the (ParseUnverified (AccessToken (projr (AuthHandler_issueTokens
           \<lparr>JWTSecret = ''k'', JWTExpiry = 15 * Minute\<rparr> 0 ''user-a@b.com'' ''a@b.com''))))))
       ''exp'' = Some (JNumber 900) \<and>
   (10 * Minute + 15 * Minute) - 10 * Minute \<noteq> 900 * Second - 10 * Minute \<and>
   redis (snd (JWTAuth ''k'' (AuthHandler_Logout \<lparr>JWTSecret = ''k'', JWTExpiry = 15 * Minute\<rparr>)
       (10 * Minute)
       \<lparr>ReqMethod = ''POST'',
        Authorization = ''Bearer '' @ RefreshToken (projr (AuthHandler_issueTokens
           \<lparr>JWTSecret = ''k'', JWTExpiry = 15 * Minute\<rparr> 0 ''user-a@b.com'' ''a@b.com'')),
        RemoteAddr = ''10.0.0.1:4000'', Body = None, ctx_claims = None\<rparr>
       (fresh_world enc_nat)))
     (blacklistPrefix @ RefreshToken (projr (AuthHandler_issueTokens
           \<lparr>JWTSecret = ''k'', JWTExpiry = 15 * Minute\<rparr> 0 ''user-a@b.com'' ''a@b.com''))) =
     Some (''1'', Some (10 * Minute + 15 * Minute)) \<and>
   map_of (TokenClaims (the (ParseUnverified (RefreshToken (projr (AuthHandler_issueTokens
           \<lparr>JWTSecret = ''k'', JWTExpiry = 15 * Minute\<rparr> 0 ''user-a@b.com'' ''a@b.com''))))))
       ''exp'' = Some (JNumber 604800) \<and>
   10 * Minute + 15 * Minute < 604800 * Second"
proof -
  define cfg where "cfg = \<lparr>JWTSecret = ''k'', JWTExpiry = 15 * Minute\<rparr>"
  define pair where "pair = projr (AuthHandler_issueTokens cfg 0 ''user-a@b.com'' ''a@b.com'')"
  have it: "AuthHandler_issueTokens cfg 0 ''user-a@b.com'' ''a@b.com'' = Inr pair"
    unfolding pair_def by (rule issueTokens_projr)
  have ne: "AccessToken pair \<noteq> []" using issued_tokens_not_Nil(1) [OF it] .
  have m: "(0::int) < Minute" by (simp add: Minute_def Second_def)
  have a1: "redis (snd (AuthHandler_Logout cfg (10 * Minute)
       \<lparr>ReqMethod = ''POST'', Authorization = ''Bearer '' @ AccessToken pair,
        RemoteAddr = ''10.0.0.1:4000'', Body = None,
        ctx_claims = Some \<lparr>ClaimsUserID = ''user-a@b.com'', ClaimsEmail = ''a@b.com''\<rparr>\<rparr>
       (fresh_world enc_nat)))
     (blacklistPrefix @ AccessToken pair) = Some (''1'', Some (10 * Minute + 15 * Minute))"
    using m ne
    by (subst Logout_blacklist_entry(1)
          [where c = "\<lparr>ClaimsUserID = ''user-a@b.com'', ClaimsEmail = ''a@b.com''\<rparr>"
             and tok = "AccessToken pair"])
       (simp_all add: fresh_world_def cfg_def)
  have a2: "map_of (TokenClaims (the (ParseUnverified (AccessToken pair)))) ''exp'' =
      Some (JNumber 900)"
    using issued_exp_claims(1) [OF it]
    by (auto simp add: cfg_def Unix_def Minute_def Second_def)
  have a3: "(10 * Minute + 15 * Minute) - 10 * Minute \<noteq> 900 * Second - 10 * Minute"
    by (simp add: Minute_def Second_def)
  have k: "''k'' = JWTSecret cfg" by (simp add: cfg_def)
  have ner: "RefreshToken pair \<noteq> []" using issued_tokens_not_Nil(2) [OF it] .
  have j: "JWTAuth ''k'' (AuthHandler_Logout cfg) (10 * Minute)
       \<lparr>ReqMethod = ''POST'', Authorization = ''Bearer '' @ RefreshToken pair,
        RemoteAddr = ''10.0.0.1:4000'', Body = None, ctx_claims = None\<rparr>
       (fresh_world enc_nat) =
     AuthHandler_Logout cfg (10 * Minute)
       \<lparr>ReqMethod = ''POST'', Authorization = ''Bearer '' @ RefreshToken pair,
        RemoteAddr = ''10.0.0.1:4000'', Body = None,
        ctx_claims = Some \<lparr>ClaimsUserID = ''user-a@b.com'', ClaimsEmail = ''a@b.com''\<rparr>\<rparr>
       (fresh_world enc_nat)"
    unfolding k
    by (subst JWTAuth_issued_refresh [OF it])
       (simp_all add: Unix_def Hour_def Minute_def Second_def)
  have a4: "redis (snd (JWTAuth ''k'' (AuthHandler_Logout cfg) (10 * Minute)
       \<lparr>ReqMethod = ''POST'', Authorization = ''Bearer '' @ RefreshToken pair,
        RemoteAddr = ''10.0.0.1:4000'', Body = None, ctx_claims = None\<rparr>
       (fresh_world enc_nat)))
     (blacklistPrefix @ RefreshToken pair) = Some (''1'', Some (10 * Minute + 15 * Minute))"
    unfolding j using m ner
    by (subst Logout_blacklist_entry(1)
          [where c = "\<lparr>ClaimsUserID = ''user-a@b.com'', ClaimsEmail = ''a@b.com''\<rparr>"
             and tok = "RefreshToken pair"])
       (simp_all add: fresh_world_def cfg_def)
  have a5: "map_of (TokenClaims (the (ParseUnverified (RefreshToken pair)))) ''exp'' =
      Some (JNumber 604800)"
    using issued_exp_claims(2) [OF it]
    by (auto simp add: Unix_def Hour_def Minute_def Second_def)
  have a6: "10 * Minute + 15 * Minute < 604800 * Second"
    by (simp add: Minute_def Second_def)
  from a1 a2 a3 a4 a5 a6 show ?thesis
    unfolding cfg_def [symmetric] pair_def [symmetric] by simp
qed

lemma ValidateToken_issued:
  assumes "AuthHandler_issueTokens cfg now userID email = Inr pair"
    and "ReqMethod r = ''POST''" and "Body r = Some req"
    and "json_field req ''token'' = AccessToken pair"
  shows "fst (AuthHandler_ValidateToken cfg t r w) =
     (if fst (IsTokenBlacklisted w t (AccessToken pair)) then
        (StatusOK, TokenValidationResponse False [] [])
      else if Unix (now + JWTExpiry cfg) = 0 \<or> t < Unix (now + JWTExpiry cfg) * Second then
        (StatusOK, TokenValidationResponse True userID email)
      else (StatusOK, TokenValidationResponse False [] []))"
  using issued_tokens_not_Nil(1) [OF assms(1)]
  by (simp add: ValidateToken_response [OF assms(2,3,4)] parse_access_token [OF assms(1)]
        getStringClaim_def)

lemma JWTAuth_issued:
  assumes "AuthHandler_issueTokens cfg now userID email = Inr pair"
    and "Authorization r = ''Bearer '' @ AccessToken pair"
  shows "JWTAuth (JWTSecret cfg) next t r w =
     (if Unix (now + JWTExpiry cfg) = 0 \<or> t < Unix (now + JWTExpiry cfg) * Second then
        next t (r\<lparr>ctx_claims := Some \<lparr>ClaimsUserID = userID, ClaimsEmail = email\<rparr>\<rparr>) w
      else (http_Error ''{\"error\":\"invalid or expired token\"}'' StatusUnauthorized, w))"
  by (simp add: JWTAuth_Bearer [OF assms(2)] parse_access_token [OF assms(1)] getString_def)

subsection \<open>Claim C6\<close>

text \<open>
  C6, as amended. For an access token issued by \<^verbatim>\<open>issueTokens(userID, email)\<close> at
  \<open>now\<close>, a call of the validate endpoint at an instant \<open>t\<close> at least one second
  before \<open>now + JWTExpiry\<close> (the instant of issue itself, when the configured lifetime
  is at least one second) answers \<open>valid = true\<close> with the same \<open>user_id\<close> and
  \<open>email\<close>, provided the blacklist check does not report the token string as
  blacklisted at \<open>t\<close>.
\<close>

theorem issued_access_token_validates:
  "AuthHandler_issueTokens cfg now userID email = Inr pair \<and>
   t + Second \<le> now + JWTExpiry cfg \<and>
   \<not> fst (IsTokenBlacklisted w t (AccessToken pair)) \<and>
   ReqMethod r = ''POST'' \<and> Body r = Some req \<and> json_field req ''token'' = AccessToken pair \<longrightarrow>
     fst (AuthHandler_ValidateToken cfg t r w) =
       (StatusOK, TokenValidationResponse True userID email)"
proof
  assume a: "AuthHandler_issueTokens cfg now userID email = Inr pair \<and>
   t + Second \<le> now + JWTExpiry cfg \<and>
   \<not> fst (IsTokenBlacklisted w t (AccessToken pair)) \<and>
   ReqMethod r = ''POST'' \<and> Body r = Some req \<and> json_field req ''token'' = AccessToken pair"
  then have it: "AuthHandler_issueTokens cfg now userID email = Inr pair"
    and rq: "ReqMethod r = ''POST''" "Body r = Some req" "json_field req ''token'' = AccessToken pair"
    by simp_all
  have "t < Unix (now + JWTExpiry cfg) * Second"
    using Unix_mult_gt [of "now + JWTExpiry cfg"] a by linarith
  then show "fst (AuthHandler_ValidateToken cfg t r w) =
       (StatusOK, TokenValidationResponse True userID email)"
    using a by (simp add: ValidateToken_issued [OF it rq])
qed

theorem issued_access_token_validates_witness:
  "let cfg = \<lparr>JWTSecret = ''k'', JWTExpiry = 15 * Minute\<rparr>;
       pair = projr (AuthHandler_issueTokens cfg 100 ''user-a@b.com'' ''a@b.com'');
       r = \<lparr>ReqMethod = ''POST'', Authorization = [], RemoteAddr = ''10.0.0.1:4000'',
            Body = Some [(''token'', AccessToken pair)], ctx_claims = None\<rparr>
   in fst (AuthHandler_ValidateToken cfg 100 r (fresh_world enc_nat)) =
        (StatusOK, TokenValidationResponse True ''user-a@b.com'' ''a@b.com'')"
proof -
  define cfg where "cfg = \<lparr>JWTSecret = ''k'', JWTExpiry = 15 * Minute\<rparr>"
  define pair where "pair = projr (AuthHandler_issueTokens cfg 100 ''user-a@b.com'' ''a@b.com'')"
  define r where "r = \<lparr>ReqMethod = ''POST'', Authorization = [], RemoteAddr = ''10.0.0.1:4000'',
            Body = Some [(''token'', AccessToken pair)], ctx_claims = None\<rparr>"
  have it: "AuthHandler_issueTokens cfg 100 ''user-a@b.com'' ''a@b.com'' = Inr pair"
    unfolding pair_def by (rule issueTokens_projr)
  have "AuthHandler_issueTokens cfg 100 ''user-a@b.com'' ''a@b.com'' = Inr pair \<and>
   100 + Second \<le> 100 + JWTExpiry cfg \<and>
   \<not> fst (IsTokenBlacklisted (fresh_world enc_nat) 100 (AccessToken pair)) \<and>
   ReqMethod r = ''POST'' \<and> Body r = Some [(''token'', AccessToken pair)] \<and>
   json_field [(''token'', AccessToken pair)] ''token'' = AccessToken pair"
    using it by (simp add: IsTokenBlacklisted_fresh r_def json_field_def cfg_def Minute_def Second_def)
  with issued_access_token_validates [where cfg = cfg and now = 100 and t = 100 and r = r
      and pair = pair and w = "fresh_world enc_nat" and req = "[(''token'', AccessToken pair)]"]
  have "fst (AuthHandler_ValidateToken cfg 100 r (fresh_world enc_nat)) =
        (StatusOK, TokenValidationResponse True ''user-a@b.com'' ''a@b.com'')"
    by blast
  then show ?thesis
    unfolding Let_def cfg_def [symmetric] pair_def [symmetric] r_def [symmetric] by simp
qed

text \<open>
  The claim as stated fails in two ways. A token is determined by the identity and
  the seconds of its issue: the one issued at 300 ns is the one issued at 100 ns, and
  once that was revoked by a logout at 200 ns (through \<^verbatim>\<open>JWTAuth\<close>), validating the new token at 300 ns says
  \<open>valid = false\<close>. And with a configured lifetime of 0 a token is expired at its
  issue.
\<close>

theorem issued_access_token_rejected_counterexample:
  "AuthHandler_issueTokens \<lparr>JWTSecret = ''k'', JWTExpiry = 15 * Minute\<rparr> 300
       ''user-a@b.com'' ''a@b.com'' =
     AuthHandler_issueTokens \<lparr>JWTSecret = ''k'', JWTExpiry = 15 * Minute\<rparr> 100
       ''user-a@b.com'' ''a@b.com'' \<and>
   fst (AuthHandler_ValidateToken \<lparr>JWTSecret = ''k'', JWTExpiry = 15 * Minute\<rparr> 300
       \<lparr>ReqMethod = ''POST'', Authorization = [], RemoteAddr = ''10.0.0.1:4000'',
        Body = Some [(''token'', AccessToken (projr (AuthHandler_issueTokens
           \<lparr>JWTSecret = ''k'', JWTExpiry = 15 * Minute\<rparr> 300 ''user-a@b.com'' ''a@b.com'')))],
        ctx_claims = None\<rparr>
       (snd (JWTAuth ''k'' (AuthHandler_Logout \<lparr>JWTSecret = ''k'', JWTExpiry = 15 * Minute\<rparr>) 200
          \<lparr>ReqMethod = ''POST'',
           Authorization = ''Bearer '' @ AccessToken (projr (AuthHandler_issueTokens
              \<lparr>JWTSecret = ''k'', JWTExpiry = 15 * Minute\<rparr> 100 ''user-a@b.com'' ''a@b.com'')),
           RemoteAddr = ''10.0.0.1:4000'', Body = None, ctx_claims = None\<rparr>
          (fresh_world enc_nat)))) =
     (StatusOK, TokenValidationResponse False [] []) \<and>
   fst (AuthHandler_ValidateToken \<lparr>JWTSecret = ''k'', JWTExpiry = 0\<rparr> (5 * Second)
       \<lparr>ReqMethod = ''POST'', Authorization = [], RemoteAddr = ''10.0.0.1:4000'',
        Body = Some [(''token'', AccessToken (projr (AuthHandler_issueTokens
           \<lparr>JWTSecret = ''k'', JWTExpiry = 0\<rparr> (5 * Second) ''user-a@b.com'' ''a@b.com'')))],
        ctx_claims = None\<rparr>
       (fresh_world enc_nat)) =
     (StatusOK, TokenValidationResponse False [] [])"
proof -
  define cfg where "cfg = \<lparr>JWTSecret = ''k'', JWTExpiry = 15 * Minute\<rparr>"
  define cfg0 where "cfg0 = \<lparr>JWTSecret = ''k'', JWTExpiry = 0\<rparr>"
  define pair where "pair = projr (AuthHandler_issueTokens cfg 100 ''user-a@b.com'' ''a@b.com'')"
  define pair0 where
    "pair0 = projr (AuthHandler_issueTokens cfg0 (5 * Second) ''user-a@b.com'' ''a@b.com'')"
  define w2 where "w2 = snd (JWTAuth ''k'' (AuthHandler_Logout cfg) 200
          \<lparr>ReqMethod = ''POST'', Authorization = ''Bearer '' @ AccessToken pair,
           RemoteAddr = ''10.0.0.1:4000'', Body = None, ctx_claims = None\<rparr>
          (fresh_world enc_nat))"
  have u: "Unix 300 = Unix 100" "Unix (300 + JWTExpiry cfg) = Unix (100 + JWTExpiry cfg)"
    "Unix (300 + 7 * 24 * Hour) = Unix (100 + 7 * 24 * Hour)"
    by (simp_all add: Unix_def cfg_def Hour_def Minute_def Second_def)
  have same: "AuthHandler_issueTokens cfg 300 ''user-a@b.com'' ''a@b.com'' =
      AuthHandler_issueTokens cfg 100 ''user-a@b.com'' ''a@b.com''"
    unfolding AuthHandler_issueTokens_def u by (rule refl)
  have it: "AuthHandler_issueTokens cfg 100 ''user-a@b.com'' ''a@b.com'' = Inr pair"
    unfolding pair_def by (rule issueTokens_projr)
  have it0: "AuthHandler_issueTokens cfg0 (5 * Second) ''user-a@b.com'' ''a@b.com'' = Inr pair0"
    unfolding pair0_def by (rule issueTokens_projr)
  have ne: "AccessToken pair \<noteq> []" using issued_tokens_not_Nil(1) [OF it] .
  have m: "(0::int) < Minute" by (simp add: Minute_def Second_def)
  have k: "''k'' = JWTSecret cfg" by (simp add: cfg_def)
  have w2: "w2 = snd (AuthHandler_Logout cfg 200
          \<lparr>ReqMethod = ''POST'', Authorization = ''Bearer '' @ AccessToken pair,
           RemoteAddr = ''10.0.0.1:4000'', Body = None,
           ctx_claims = Some \<lparr>ClaimsUserID = ''user-a@b.com'', ClaimsEmail = ''a@b.com''\<rparr>\<rparr>
          (fresh_world enc_nat))"
    unfolding w2_def k
    by (subst JWTAuth_issued [OF it])
       (simp_all add: cfg_def Unix_def Minute_def Second_def)
  have bl: "redis w2 (blacklistPrefix @ AccessToken pair) = Some (''1'', Some (200 + 15 * Minute))"
    and up: "redis_up w2"
    unfolding w2 using m ne
    by (subst Logout_blacklist_entry
          [where c = "\<lparr>ClaimsUserID = ''user-a@b.com'', ClaimsEmail = ''a@b.com''\<rparr>"
             and tok = "AccessToken pair"];
        simp add: fresh_world_def cfg_def)+
  have ib: "fst (IsTokenBlacklisted w2 300 (AccessToken pair))"
    by (simp add: IsTokenBlacklisted_up [OF up] redis_live_def bl Minute_def Second_def)
  have a2: "fst (AuthHandler_ValidateToken cfg 300
       \<lparr>ReqMethod = ''POST'', Authorization = [], RemoteAddr = ''10.0.0.1:4000'',
        Body = Some [(''token'', AccessToken pair)], ctx_claims = None\<rparr> w2) =
     (StatusOK, TokenValidationResponse False [] [])"
    using ib
    by (subst ValidateToken_issued [OF it, where req = "[(''token'', AccessToken pair)]"])
       (simp_all add: json_field_def)
  have a3: "fst (AuthHandler_ValidateToken cfg0 (5 * Second)
       \<lparr>ReqMethod = ''POST'', Authorization = [], RemoteAddr = ''10.0.0.1:4000'',
        Body = Some [(''token'', AccessToken pair0)], ctx_claims = None\<rparr> (fresh_world enc_nat)) =
     (StatusOK, TokenValidationResponse False [] [])"
    by (subst ValidateToken_issued [OF it0, where req = "[(''token'', AccessToken pair0)]"])
       (simp_all add: json_field_def IsTokenBlacklisted_fresh cfg0_def Unix_def Second_def)
  from same a2 a3 show ?thesis
    unfolding cfg_def [symmetric] cfg0_def [symmetric] same pair_def [symmetric]
      pair0_def [symmetric] w2_def [symmetric]
    by simp
qed







subsection \<open>Claim C2\<close>





lemma Logout_OK_POST:
  "fst (fst (AuthHandler_Logout cfg t r w)) = StatusOK \<Longrightarrow> ReqMethod r = ''POST''"
  by (rule ccontr) (simp add: AuthHandler_Logout_def writeError_def writeJSON_def status_defs)

lemma Unix_pos:
  assumes "0 \<le> t" and "Second \<le> d"
  shows "Unix (t + d) \<noteq> 0"
proof -
  have "Second \<le> t + d" using assms by simp
  then have "Unix Second \<le> Unix (t + d)"
    unfolding Unix_def by (rule zdiv_mono1) (simp add: Second_def)
  then show ?thesis by (simp add: Unix_def Second_def)
qed

lemma blacklisted_entry:
  assumes "redis_up w'" and "redis w' (blacklistPrefix @ tok) = Some (v, dl)"
    and "dl = None \<or> (\<exists>d. dl = Some d \<and> t' < d)"
  shows "IsTokenBlacklisted w' t' tok = (True, None)"
  using assms by (auto simp add: IsTokenBlacklisted_up redis_live_def)

lemma ValidateToken_blacklisted:
  assumes "ReqMethod rv = ''POST''" and "Body rv = Some req"
    and "json_field req ''token'' = tok" and "tok \<noteq> []"
    and "IsTokenBlacklisted w' t' tok = (True, e)"
  shows "fst (AuthHandler_ValidateToken cfg t' rv w') =
     (StatusOK, TokenValidationResponse False [] [])"
  using assms(5) by (simp add: ValidateToken_response [OF assms(1,2,3,4)])

lemma logout_then_validate:
  assumes login: "AuthHandler_Login cfg t0 r0 w0 = ((StatusOK, TokenPairBody pair), w0')"
    and t0: "0 \<le> t0" and e: "Second \<le> JWTExpiry cfg" and t02: "t0 \<le> t2"
    and hdr: "Authorization rl = ''Bearer '' @ AccessToken pair"
    and up: "redis_up wl"
    and ok: "fst (fst (JWTAuth (JWTSecret cfg) (AuthHandler_Logout cfg) t2 rl wl)) = StatusOK"
    and t23: "t2 \<le> t3" and up3: "redis_up w3"
    and frame: "redis w3 (blacklistPrefix @ AccessToken pair) =
       redis (snd (JWTAuth (JWTSecret cfg) (AuthHandler_Logout cfg) t2 rl wl))
         (blacklistPrefix @ AccessToken pair)"
    and rv: "ReqMethod rv = ''POST''" "Body rv = Some req"
      "json_field req ''token'' = AccessToken pair"
  shows "fst (AuthHandler_ValidateToken cfg t3 rv w3) =
     (StatusOK, TokenValidationResponse False [] [])"
proof -
  from Login_OK_D [OF login] obtain creds where
    it: "AuthHandler_issueTokens cfg t0 (''user-'' @ json_field creds ''email'')
           (json_field creds ''email'') = Inr pair"
    by blast
  have ne: "AccessToken pair \<noteq> []" using issued_tokens_not_Nil(1) [OF it] .
  have nz: "Unix (t0 + JWTExpiry cfg) \<noteq> 0" using t0 e by (rule Unix_pos)
  let ?c = "\<lparr>ClaimsUserID = ''user-'' @ json_field creds ''email'',
             ClaimsEmail = json_field creds ''email''\<rparr>"
  have acc: "t2 < Unix (t0 + JWTExpiry cfg) * Second"
    using ok nz
    by (simp add: JWTAuth_issued [OF it hdr] http_Error_def status_defs split: if_splits)
  then have j: "JWTAuth (JWTSecret cfg) (AuthHandler_Logout cfg) t2 rl wl =
      AuthHandler_Logout cfg t2 (rl\<lparr>ctx_claims := Some ?c\<rparr>) wl"
    by (simp add: JWTAuth_issued [OF it hdr])
  have post: "ReqMethod (rl\<lparr>ctx_claims := Some ?c\<rparr>) = ''POST''"
    using ok unfolding j by (rule Logout_OK_POST)
  have pos: "0 < JWTExpiry cfg" using e by (simp add: Second_def)
  have en: "redis w3 (blacklistPrefix @ AccessToken pair) =
      Some (''1'', Some (t2 + JWTExpiry cfg))"
    unfolding frame j
    using pos
    by (subst Logout_blacklist_entry(1) [OF post _ up _ ne, where c = ?c])
       (simp_all add: hdr)
  show ?thesis
  proof (cases "t3 < t2 + JWTExpiry cfg")
    case True
    have "IsTokenBlacklisted w3 t3 (AccessToken pair) = (True, None)"
      using True by (intro blacklisted_entry [OF up3 en]) simp
    from ValidateToken_blacklisted [OF rv ne this] show ?thesis .
  next
    case False
    have "Unix (t0 + JWTExpiry cfg) * Second \<le> t3"
      using Unix_mult_le [of "t0 + JWTExpiry cfg"] False t02 by linarith
    then show ?thesis
      using nz by (simp add: ValidateToken_issued [OF it rv])
  qed
qed

subsection \<open>Claim C4\<close>

text \<open>
  C4, as amended. After a successful \<^verbatim>\<open>BlacklistToken(token, ttl)\<close> at \<open>t\<close>, in every
  state whose Redis answers and still holds that entry, \<^verbatim>\<open>IsTokenBlacklisted\<close> is
  true at every instant before \<open>t + ttl\<close> (at every instant, when \<open>ttl\<close> is not
  positive), and the validate endpoint answers \<open>valid = false\<close> for the token. End to
  end: when a login at \<open>t0\<close> returned an access token and a logout with that token
  as Bearer went through \<^verbatim>\<open>JWTAuth\<close> at \<open>t2 \<ge> t0\<close> while Redis answered, every
  validate of the token at any \<open>t3 \<ge> t2\<close>, in a state whose Redis answers and still
  holds the entry of that logout, answers \<open>valid = false\<close>: the blacklist entry covers
  it until \<open>t2 + JWTExpiry\<close>, and from then on the token has expired. (The clock is
  not before the epoch and the configured lifetime is at least a second, so that the
  token has an expiry.) Without the condition on Redis the logout still answers 200
  and the token stays valid.
\<close>

theorem logout_makes_validate_reject:
  "(BlacklistToken w t tok ttl = (None, w1) \<and> tok \<noteq> [] \<longrightarrow>
      (\<forall>t' w' rv req.
         (ttl \<le> 0 \<or> t' < t + ttl) \<and> redis_up w' \<and>
         redis w' (blacklistPrefix @ tok) = redis w1 (blacklistPrefix @ tok) \<and>
         ReqMethod rv = ''POST'' \<and> Body rv = Some req \<and> json_field req ''token'' = tok \<longrightarrow>
           IsTokenBlacklisted w' t' tok = (True, None) \<and>
           fst (AuthHandler_ValidateToken cfg t' rv w') =
             (StatusOK, TokenValidationResponse False [] []))) \<and>
   (AuthHandler_Login cfg t0 r0 w0 = ((StatusOK, TokenPairBody pair), w0') \<and>
    0 \<le> t0 \<and> Second \<le> JWTExpiry cfg \<and> t0 \<le> t2 \<and>
    Authorization rl = ''Bearer '' @ AccessToken pair \<and> redis_up wl \<and>
    fst (fst (JWTAuth (JWTSecret cfg) (AuthHandler_Logout cfg) t2 rl wl)) = StatusOK \<longrightarrow>
      (\<forall>t3 w3 rv req.
         t2 \<le> t3 \<and> redis_up w3 \<and>
         redis w3 (blacklistPrefix @ AccessToken pair) =
           redis (snd (JWTAuth (JWTSecret cfg) (AuthHandler_Logout cfg) t2 rl wl))
             (blacklistPrefix @ AccessToken pair) \<and>
         ReqMethod rv = ''POST'' \<and> Body rv = Some req \<and>
         json_field req ''token'' = AccessToken pair \<longrightarrow>
           fst (AuthHandler_ValidateToken cfg t3 rv w3) =
             (StatusOK, TokenValidationResponse False [] [])))"
proof (intro conjI impI allI)
  fix t' :: time and w' :: world and rv :: Request and req :: "(string \<times> string) list"
  assume a: "BlacklistToken w t tok ttl = (None, w1) \<and> tok \<noteq> []"
    and b: "(ttl \<le> 0 \<or> t' < t + ttl) \<and> redis_up w' \<and>
         redis w' (blacklistPrefix @ tok) = redis w1 (blacklistPrefix @ tok) \<and>
         ReqMethod rv = ''POST'' \<and> Body rv = Some req \<and> json_field req ''token'' = tok"
  have up: "redis_up w" using a by (cases "redis_up w") (simp_all add: BlacklistToken_down)
  have w1: "redis w1 (blacklistPrefix @ tok) =
      Some (''1'', if 0 < ttl then Some (t + ttl) else None)"
    using a by (simp add: BlacklistToken_up [OF up] prod_eq_iff) auto
  have en: "redis w' (blacklistPrefix @ tok) =
      Some (''1'', if 0 < ttl then Some (t + ttl) else None)"
    using b w1 by simp
  show ib: "IsTokenBlacklisted w' t' tok = (True, None)"
    using b by (intro blacklisted_entry [OF _ en]) auto
  show "fst (AuthHandler_ValidateToken cfg t' rv w') =
      (StatusOK, TokenValidationResponse False [] [])"
    using a b by (intro ValidateToken_blacklisted [OF _ _ _ _ ib]) blast+
next
  fix t3 :: time and w3 :: world and rv :: Request and req :: "(string \<times> string) list"
  assume a: "AuthHandler_Login cfg t0 r0 w0 = ((StatusOK, TokenPairBody pair), w0') \<and>
    0 \<le> t0 \<and> Second \<le> JWTExpiry cfg \<and> t0 \<le> t2 \<and>
    Authorization rl = ''Bearer '' @ AccessToken pair \<and> redis_up wl \<and>
    fst (fst (JWTAuth (JWTSecret cfg) (AuthHandler_Logout cfg) t2 rl wl)) = StatusOK"
    and b: "t2 \<le> t3 \<and> redis_up w3 \<and>
         redis w3 (blacklistPrefix @ AccessToken pair) =
           redis (snd (JWTAuth (JWTSecret cfg) (AuthHandler_Logout cfg) t2 rl wl))
             (blacklistPrefix @ AccessToken pair) \<and>
         ReqMethod rv = ''POST'' \<and> Body rv = Some req \<and>
         json_field req ''token'' = AccessToken pair"
  show "fst (AuthHandler_ValidateToken cfg t3 rv w3) =
      (StatusOK, TokenValidationResponse False [] [])"
    using a b by (intro logout_then_validate [where ?t0.0 = t0 and ?t2.0 = t2]) blast+
qed


lemma Login_redis_frame:
  "redis_up (snd (AuthHandler_Login cfg t r w)) = redis_up w \<and>
   redis (snd (AuthHandler_Login cfg t r w)) (blacklistPrefix @ k) = redis w (blacklistPrefix @ k)"
  by (simp add: AuthHandler_Login_def Let_def log_Printf_def generateID_def
        RecordLoginAttempt_def CreateSession_def CacheSession_def redis_Set_def
        GetRecentFailedAttempts_def prefixes_differ prefixes_neq
      split: option.splits prod.splits sum.splits)


theorem logout_makes_validate_reject_witness:
  "let cfg = \<lparr>JWTSecret = ''k'', JWTExpiry = 15 * Minute\<rparr>;
       w0 = fresh_world enc_nat;
       r0 = \<lparr>ReqMethod = ''POST'', Authorization = [], RemoteAddr = ''10.0.0.1:4000'',
             Body = Some [(''email'', ''a@b.com''), (''password'', ''x'')], ctx_claims = None\<rparr>;
       pair = projr (AuthHandler_issueTokens cfg 0 ''user-a@b.com'' ''a@b.com'');
       w1 = snd (AuthHandler_Login cfg 0 r0 w0);
       rv = \<lparr>ReqMethod = ''POST'', Authorization = [], RemoteAddr = ''10.0.0.1:4000'',
             Body = Some [(''token'', AccessToken pair)], ctx_claims = None\<rparr>;
       rl = \<lparr>ReqMethod = ''POST'', Authorization = ''Bearer '' @ AccessToken pair,
             RemoteAddr = ''10.0.0.1:4000'', Body = None, ctx_claims = None\<rparr>;
       w2 = snd (JWTAuth ''k'' (AuthHandler_Logout cfg) (2 * Minute) rl w1)
   in IsTokenBlacklisted (snd (BlacklistToken w0 5 ''tok'' 10)) 14 ''tok'' = (True, None) \<and>
      fst (AuthHandler_Login cfg 0 r0 w0) = (StatusOK, TokenPairBody pair) \<and>
      fst (AuthHandler_ValidateToken cfg Minute rv w1) =
        (StatusOK, TokenValidationResponse True ''user-a@b.com'' ''a@b.com'') \<and>
      fst (fst (JWTAuth ''k'' (AuthHandler_Logout cfg) (2 * Minute) rl w1)) = StatusOK \<and>
      fst (AuthHandler_ValidateToken cfg (3 * Minute) rv w2) =
        (StatusOK, TokenValidationResponse False [] []) \<and>
      fst (AuthHandler_ValidateToken cfg (30 * Minute) rv w2) =
        (StatusOK, TokenValidationResponse False [] [])"
proof -
  define cfg where "cfg = \<lparr>JWTSecret = ''k'', JWTExpiry = 15 * Minute\<rparr>"
  define w0 where "w0 = fresh_world enc_nat"
  define r0 where "r0 = \<lparr>ReqMethod = ''POST'', Authorization = [], RemoteAddr = ''10.0.0.1:4000'',
             Body = Some [(''email'', ''a@b.com''), (''password'', ''x'')], ctx_claims = None\<rparr>"
  define pair where "pair = projr (AuthHandler_issueTokens cfg 0 ''user-a@b.com'' ''a@b.com'')"
  define w1 where "w1 = snd (AuthHandler_Login cfg 0 r0 w0)"
  define rv where "rv = \<lparr>ReqMethod = ''POST'', Authorization = [], RemoteAddr = ''10.0.0.1:4000'',
             Body = Some [(''token'', AccessToken pair)], ctx_claims = None\<rparr>"
  define rl where "rl = \<lparr>ReqMethod = ''POST'', Authorization = ''Bearer '' @ AccessToken pair,
             RemoteAddr = ''10.0.0.1:4000'', Body = None, ctx_claims = None\<rparr>"
  define w2 where "w2 = snd (JWTAuth ''k'' (AuthHandler_Logout cfg) (2 * Minute) rl w1)"
  have k: "''k'' = JWTSecret cfg" and e: "JWTExpiry cfg = 15 * Minute" by (simp_all add: cfg_def)
  have m: "(0::int) < Minute" by (simp add: Minute_def Second_def)
  have it: "AuthHandler_issueTokens cfg 0 (''user-'' @ ''a@b.com'') ''a@b.com'' = Inr pair"
    unfolding pair_def using issueTokens_projr [of cfg 0 "''user-a@b.com''" "''a@b.com''"] by simp
  have it': "AuthHandler_issueTokens cfg 0 ''user-a@b.com'' ''a@b.com'' = Inr pair"
    using it by simp
  have "fst (AuthHandler_Login cfg 0 r0 w0) = (StatusOK, TokenPairBody pair)"
    by (rule Login_OK_I [where creds = "[(''email'', ''a@b.com''), (''password'', ''x'')]"
          and email = "''a@b.com''", OF _ _ _ _ _ _ _ it])
       (simp_all add: r0_def json_field_def w0_def fresh_world_def GetRecentFailedAttempts_def
          enc_nat_def)
  then have login: "AuthHandler_Login cfg 0 r0 w0 = ((StatusOK, TokenPairBody pair), w1)"
    by (simp add: w1_def prod_eq_iff)
  have up1: "redis_up w1"
    unfolding w1_def by (simp add: Login_redis_frame w0_def fresh_world_def)
  have nb1: "IsTokenBlacklisted w1 Minute (AccessToken pair) = (False, None)"
    by (simp add: IsTokenBlacklisted_up [OF up1] redis_live_def)
       (simp add: w1_def Login_redis_frame w0_def fresh_world_def)
  have rvq: "ReqMethod rv = ''POST''" "Body rv = Some [(''token'', AccessToken pair)]"
    "json_field [(''token'', AccessToken pair)] ''token'' = AccessToken pair"
    by (simp_all add: rv_def json_field_def)
  have hdr: "Authorization rl = ''Bearer '' @ AccessToken pair" by (simp add: rl_def)
  have a3: "fst (AuthHandler_ValidateToken cfg Minute rv w1) =
        (StatusOK, TokenValidationResponse True ''user-a@b.com'' ''a@b.com'')"
    by (simp add: ValidateToken_issued [OF it' rvq] nb1 e)
       (simp add: Unix_def Minute_def Second_def)
  have a4: "fst (fst (JWTAuth ''k'' (AuthHandler_Logout cfg) (2 * Minute) rl w1)) = StatusOK"
    unfolding k
    by (simp add: JWTAuth_issued [OF it' hdr] e)
       (simp add: Unix_def Minute_def Second_def Logout_response rl_def)
  have up2: "redis_up w2"
    unfolding w2_def k
    by (simp add: JWTAuth_issued [OF it' hdr] e)
       (simp add: Unix_def Minute_def Second_def up1 issued_tokens_not_Nil(1) [OF it']
          Logout_blacklist_entry(2) [where tok = "AccessToken pair"] rl_def)
  have hyp: "AuthHandler_Login cfg 0 r0 w0 = ((StatusOK, TokenPairBody pair), w1) \<and>
    (0::int) \<le> 0 \<and> Second \<le> JWTExpiry cfg \<and> 0 \<le> 2 * Minute \<and>
    Authorization rl = ''Bearer '' @ AccessToken pair \<and> redis_up w1 \<and>
    fst (fst (JWTAuth (JWTSecret cfg) (AuthHandler_Logout cfg) (2 * Minute) rl w1)) = StatusOK"
    using login hdr up1 a4 by (simp add: k [symmetric]) (simp add: cfg_def Minute_def Second_def)
  note inst = logout_makes_validate_reject [where cfg = cfg and ?t0.0 = 0 and ?r0.0 = r0
      and ?w0.0 = w0 and pair = pair and ?w0' = w1 and ?t2.0 = "2 * Minute" and rl = rl
      and wl = w1 and w = w0 and t = 5 and tok = "''tok''" and ttl = 10
      and ?w1.0 = "snd (BlacklistToken w0 5 ''tok'' 10)"]
  note e2e = inst [THEN conjunct2, rule_format, OF hyp]
  have w2eq: "snd (JWTAuth (JWTSecret cfg) (AuthHandler_Logout cfg) (2 * Minute) rl w1) = w2"
    by (simp add: w2_def cfg_def)
  have a5: "fst (AuthHandler_ValidateToken cfg (3 * Minute) rv w2) =
        (StatusOK, TokenValidationResponse False [] [])"
    by (rule e2e [where req = "[(''token'', AccessToken pair)]"])
       (simp add: up2 rvq w2eq m)
  have a6: "fst (AuthHandler_ValidateToken cfg (30 * Minute) rv w2) =
        (StatusOK, TokenValidationResponse False [] [])"
    by (rule e2e [where req = "[(''token'', AccessToken pair)]"])
       (simp add: up2 rvq w2eq m)
  have bt: "BlacklistToken w0 5 ''tok'' 10 = (None, snd (BlacklistToken w0 5 ''tok'' 10)) \<and>
      ''tok'' \<noteq> []"
    by (simp add: BlacklistToken_up w0_def fresh_world_def)
  have a1: "IsTokenBlacklisted (snd (BlacklistToken w0 5 ''tok'' 10)) 14 ''tok'' = (True, None)"
    using inst [THEN conjunct1, rule_format, OF bt,
        where t' = 14 and w' = "snd (BlacklistToken w0 5 ''tok'' 10)"
          and rv = "\<lparr>ReqMethod = ''POST'', Authorization = [], RemoteAddr = [],
                      Body = Some [(''token'', ''tok'')], ctx_claims = None\<rparr>"
          and req = "[(''token'', ''tok'')]"]
    by (simp add: BlacklistToken_up w0_def fresh_world_def json_field_def)
  have a2: "fst (AuthHandler_Login cfg 0 r0 w0) = (StatusOK, TokenPairBody pair)"
    using login by simp
  from a1 a2 a3 a4 a5 a6 show ?thesis
    unfolding Let_def cfg_def [symmetric] w0_def [symmetric] r0_def [symmetric]
      pair_def [symmetric] w1_def [symmetric] rv_def [symmetric] rl_def [symmetric]
      w2_def [symmetric]
    by simp
qed

lemma Logout_redis_down:
  "\<not> redis_up w \<Longrightarrow> redis (snd (AuthHandler_Logout cfg now r w)) = redis w"
  by (simp add: AuthHandler_Logout_def GetClaims_def Let_def BlacklistToken_def redis_Set_def
        DeleteSession_def InvalidateCachedSession_def redis_Del_def log_Printf_def
      split: option.splits)

lemma Logout_redis_down_logs:
  "\<not> redis_up w \<Longrightarrow> ReqMethod r = ''POST'' \<Longrightarrow> ctx_claims r = Some c \<Longrightarrow>
   ''error blacklisting token'' \<in> set (logs (snd (AuthHandler_Logout cfg now r w)))"
  by (simp add: AuthHandler_Logout_def GetClaims_def Let_def BlacklistToken_def redis_Set_def
        DeleteSession_def InvalidateCachedSession_def redis_Del_def log_Printf_def)

text \<open>
  The claim as stated fails when Redis does not answer during the logout: the login
  at 0 answers 200, the validate at minute 1 says \<open>valid = true\<close>, the logout at minute
  2 logs the error of \<^verbatim>\<open>BlacklistToken\<close> and answers 200 all the same, and the validate
  at minute 3, with Redis answering again, still says \<open>valid = true\<close>.
\<close>

theorem logout_without_blacklist_store_counterexample:
  "fst (AuthHandler_Login \<lparr>JWTSecret = ''k'', JWTExpiry = 15 * Minute\<rparr> 0
       \<lparr>ReqMethod = ''POST'', Authorization = [], RemoteAddr = ''10.0.0.1:4000'',
        Body = Some [(''email'', ''a@b.com''), (''password'', ''x'')], ctx_claims = None\<rparr>
       (fresh_world enc_nat)) =
     (StatusOK, TokenPairBody (projr (AuthHandler_issueTokens
        \<lparr>JWTSecret = ''k'', JWTExpiry = 15 * Minute\<rparr> 0 ''user-a@b.com'' ''a@b.com''))) \<and>
   fst (AuthHandler_ValidateToken \<lparr>JWTSecret = ''k'', JWTExpiry = 15 * Minute\<rparr> Minute
       \<lparr>ReqMethod = ''POST'', Authorization = [], RemoteAddr = ''10.0.0.1:4000'',
        Body = Some [(''token'', AccessToken (projr (AuthHandler_issueTokens
           \<lparr>JWTSecret = ''k'', JWTExpiry = 15 * Minute\<rparr> 0 ''user-a@b.com'' ''a@b.com'')))],
        ctx_claims = None\<rparr>
       (snd (AuthHandler_Login \<lparr>JWTSecret = ''k'', JWTExpiry = 15 * Minute\<rparr> 0
          \<lparr>ReqMethod = ''POST'', Authorization = [], RemoteAddr = ''10.0.0.1:4000'',
           Body = Some [(''email'', ''a@b.com''), (''password'', ''x'')], ctx_claims = None\<rparr>
          (fresh_world enc_nat)))) =
     (StatusOK, TokenValidationResponse True ''user-a@b.com'' ''a@b.com'') \<and>
   fst (JWTAuth ''k'' (AuthHandler_Logout \<lparr>JWTSecret = ''k'', JWTExpiry = 15 * Minute\<rparr>)
       (2 * Minute)
       \<lparr>ReqMethod = ''POST'',
        Authorization = ''Bearer '' @ AccessToken (projr (AuthHandler_issueTokens
           \<lparr>JWTSecret = ''k'', JWTExpiry = 15 * Minute\<rparr> 0 ''user-a@b.com'' ''a@b.com'')),
        RemoteAddr = ''10.0.0.1:4000'', Body = None, ctx_claims = None\<rparr>
       ((snd (AuthHandler_Login \<lparr>JWTSecret = ''k'', JWTExpiry = 15 * Minute\<rparr> 0
          \<lparr>ReqMethod = ''POST'', Authorization = [], RemoteAddr = ''10.0.0.1:4000'',
           Body = Some [(''email'', ''a@b.com''), (''password'', ''x'')], ctx_claims = None\<rparr>
          (fresh_world enc_nat)))\<lparr>redis_up := False\<rparr>)) =
     (StatusOK, MessageBody ''logged out successfully'') \<and>
   ''error blacklisting token'' \<in> set (logs (snd (JWTAuth ''k''
       (AuthHandler_Logout \<lparr>JWTSecret = ''k'', JWTExpiry = 15 * Minute\<rparr>) (2 * Minute)
       \<lparr>ReqMethod = ''POST'',
        Authorization = ''Bearer '' @ AccessToken (projr (AuthHandler_issueTokens
           \<lparr>JWTSecret = ''k'', JWTExpiry = 15 * Minute\<rparr> 0 ''user-a@b.com'' ''a@b.com'')),
        RemoteAddr = ''10.0.0.1:4000'', Body = None, ctx_claims = None\<rparr>
       ((snd (AuthHandler_Login \<lparr>JWTSecret = ''k'', JWTExpiry = 15 * Minute\<rparr> 0
          \<lparr>ReqMethod = ''POST'', Authorization = [], RemoteAddr = ''10.0.0.1:4000'',
           Body = Some [(''email'', ''a@b.com''), (''password'', ''x'')], ctx_claims = None\<rparr>
          (fresh_world enc_nat)))\<lparr>redis_up := False\<rparr>)))) \<and>
   fst (AuthHandler_ValidateToken \<lparr>JWTSecret = ''k'', JWTExpiry = 15 * Minute\<rparr> (3 * Minute)
       \<lparr>ReqMethod = ''POST'', Authorization = [], RemoteAddr = ''10.0.0.1:4000'',
        Body = Some [(''token'', AccessToken (projr (AuthHandler_issueTokens
           \<lparr>JWTSecret = ''k'', JWTExpiry = 15 * Minute\<rparr> 0 ''user-a@b.com'' ''a@b.com'')))],
        ctx_claims = None\<rparr>
       ((snd (JWTAuth ''k'' (AuthHandler_Logout \<lparr>JWTSecret = ''k'', JWTExpiry = 15 * Minute\<rparr>)
          (2 * Minute)
          \<lparr>ReqMethod = ''POST'',
           Authorization = ''Bearer '' @ AccessToken (projr (AuthHandler_issueTokens
              \<lparr>JWTSecret = ''k'', JWTExpiry = 15 * Minute\<rparr> 0 ''user-a@b.com'' ''a@b.com'')),
           RemoteAddr = ''10.0.0.1:4000'', Body = None, ctx_claims = None\<rparr>
          ((snd (AuthHandler_Login \<lparr>JWTSecret = ''k'', JWTExpiry = 15 * Minute\<rparr> 0
             \<lparr>ReqMethod = ''POST'', Authorization = [], RemoteAddr = ''10.0.0.1:4000'',
              Body = Some [(''email'', ''a@b.com''), (''password'', ''x'')], ctx_claims = None\<rparr>
             (fresh_world enc_nat)))\<lparr>redis_up := False\<rparr>)))\<lparr>redis_up := True\<rparr>)) =
     (StatusOK, TokenValidationResponse True ''user-a@b.com'' ''a@b.com'')"
proof -
  define cfg where "cfg = \<lparr>JWTSecret = ''k'', JWTExpiry = 15 * Minute\<rparr>"
  define w0 where "w0 = fresh_world enc_nat"
  define r0 where "r0 = \<lparr>ReqMethod = ''POST'', Authorization = [], RemoteAddr = ''10.0.0.1:4000'',
             Body = Some [(''email'', ''a@b.com''), (''password'', ''x'')], ctx_claims = None\<rparr>"
  define pair where "pair = projr (AuthHandler_issueTokens cfg 0 ''user-a@b.com'' ''a@b.com'')"
  define w1 where "w1 = snd (AuthHandler_Login cfg 0 r0 w0)"
  define rv where "rv = \<lparr>ReqMethod = ''POST'', Authorization = [], RemoteAddr = ''10.0.0.1:4000'',
             Body = Some [(''token'', AccessToken pair)], ctx_claims = None\<rparr>"
  define rl where "rl = \<lparr>ReqMethod = ''POST'', Authorization = ''Bearer '' @ AccessToken pair,
             RemoteAddr = ''10.0.0.1:4000'', Body = None, ctx_claims = None\<rparr>"
  define w2 where
    "w2 = snd (JWTAuth ''k'' (AuthHandler_Logout cfg) (2 * Minute) rl (w1\<lparr>redis_up := False\<rparr>))"
  let ?c = "\<lparr>ClaimsUserID = ''user-a@b.com'', ClaimsEmail = ''a@b.com''\<rparr>"
  have k: "''k'' = JWTSecret cfg" and e: "JWTExpiry cfg = 15 * Minute" by (simp_all add: cfg_def)
  have it: "AuthHandler_issueTokens cfg 0 (''user-'' @ ''a@b.com'') ''a@b.com'' = Inr pair"
    unfolding pair_def using issueTokens_projr [of cfg 0 "''user-a@b.com''" "''a@b.com''"] by simp
  have it': "AuthHandler_issueTokens cfg 0 ''user-a@b.com'' ''a@b.com'' = Inr pair"
    using it by simp
  have a1: "fst (AuthHandler_Login cfg 0 r0 w0) = (StatusOK, TokenPairBody pair)"
    by (rule Login_OK_I [where creds = "[(''email'', ''a@b.com''), (''password'', ''x'')]"
          and email = "''a@b.com''", OF _ _ _ _ _ _ _ it])
       (simp_all add: r0_def json_field_def w0_def fresh_world_def GetRecentFailedAttempts_def
          enc_nat_def)
  have up1: "redis_up w1"
    unfolding w1_def by (simp add: Login_redis_frame w0_def fresh_world_def)
  have none1: "redis w1 (blacklistPrefix @ AccessToken pair) = None"
    by (simp add: w1_def Login_redis_frame w0_def fresh_world_def)
  have rvq: "ReqMethod rv = ''POST''" "Body rv = Some [(''token'', AccessToken pair)]"
    "json_field [(''token'', AccessToken pair)] ''token'' = AccessToken pair"
    by (simp_all add: rv_def json_field_def)
  have hdr: "Authorization rl = ''Bearer '' @ AccessToken pair" by (simp add: rl_def)
  have nb1: "IsTokenBlacklisted w1 Minute (AccessToken pair) = (False, None)"
    by (simp add: IsTokenBlacklisted_up [OF up1] redis_live_def none1)
  have a2: "fst (AuthHandler_ValidateToken cfg Minute rv w1) =
        (StatusOK, TokenValidationResponse True ''user-a@b.com'' ''a@b.com'')"
    by (simp add: ValidateToken_issued [OF it' rvq] nb1 e)
       (simp add: Unix_def Minute_def Second_def)
  have j: "JWTAuth ''k'' (AuthHandler_Logout cfg) (2 * Minute) rl (w1\<lparr>redis_up := False\<rparr>) =
      AuthHandler_Logout cfg (2 * Minute) (rl\<lparr>ctx_claims := Some ?c\<rparr>) (w1\<lparr>redis_up := False\<rparr>)"
    unfolding k
    by (subst JWTAuth_issued [OF it' hdr]) (simp_all add: e Unix_def Minute_def Second_def)
  have a3: "fst (JWTAuth ''k'' (AuthHandler_Logout cfg) (2 * Minute) rl (w1\<lparr>redis_up := False\<rparr>)) =
      (StatusOK, MessageBody ''logged out successfully'')"
    unfolding j by (rule Logout_response [where c = ?c]) (simp_all add: rl_def)
  have a4: "''error blacklisting token'' \<in> set (logs w2)"
    unfolding w2_def j by (rule Logout_redis_down_logs [where c = ?c]) (simp_all add: rl_def)
  have none2: "redis w2 (blacklistPrefix @ AccessToken pair) = None"
    unfolding w2_def j by (simp add: Logout_redis_down none1)
  have nb2: "IsTokenBlacklisted (w2\<lparr>redis_up := True\<rparr>) (3 * Minute) (AccessToken pair) =
      (False, None)"
    by (simp add: IsTokenBlacklisted_up redis_live_def none2)
  have a5: "fst (AuthHandler_ValidateToken cfg (3 * Minute) rv (w2\<lparr>redis_up := True\<rparr>)) =
        (StatusOK, TokenValidationResponse True ''user-a@b.com'' ''a@b.com'')"
    by (simp add: ValidateToken_issued [OF it' rvq] nb2 e)
       (simp add: Unix_def Minute_def Second_def)
  from a1 a2 a3 a4 a5 show ?thesis
    unfolding cfg_def [symmetric] w0_def [symmetric] r0_def [symmetric] pair_def [symmetric]
      w1_def [symmetric] rv_def [symmetric] rl_def [symmetric] w2_def [symmetric]
    by simp
qed

lemma Middleware_admitted:
  assumes "fst (Middleware_check rl now (RemoteAddr r))"
  shows "fst (Middleware next now r (rl, w)) = fst (next now r w)"
proof -
  obtain rl' where m: "Middleware_check rl now (RemoteAddr r) = (True, rl')"
    using assms by (cases "Middleware_check rl now (RemoteAddr r)") simp
  obtain resp w' where n: "next now r w = (resp, w')"
    by (cases "next now r w")
  show ?thesis by (simp add: Middleware_def m n)
qed

lemma JWTAuth_signed:
  assumes "jwt_SignedString t secret = Inr tok" and "Validate now (TokenClaims t) = None"
    and "Authorization r = ''Bearer '' @ tok"
  shows "JWTAuth secret next now r w =
     next now (r\<lparr>ctx_claims := Some \<lparr>ClaimsUserID = getString (TokenClaims t) ''user_id'',
                                     ClaimsEmail = getString (TokenClaims t) ''email''\<rparr>\<rparr>) w"
  using assms(2)
  by (simp add: JWTAuth_Bearer [OF assms(3)] jwt_Parse_SignedString [OF assms(1)])

subsection \<open>Claim C1\<close>

text \<open>
  C1. \<^verbatim>\<open>JWTAuth\<close> never consults the blacklist. For a given secret, instant and
  \<^verbatim>\<open>Authorization\<close> header there is one decision, a refusal or the claims to inject,
  that the middleware takes for every request with that header, every next handler
  and every state; so two runs that differ in the state (in particular in which
  tokens are blacklisted) are both refused with the same response or both passed on
  with the same claims. A token signed under the secret whose claims validate is
  passed on even when \<^verbatim>\<open>IsTokenBlacklisted\<close> says it is blacklisted, and the protected
  logout route (behind the rate limiter, when that admits the request) then answers 200.
\<close>

theorem jwtauth_does_not_consult_blacklist:
  "(\<exists>d. \<forall>next r w. Authorization r = hdr \<longrightarrow>
      JWTAuth secret next now r w =
        (case d of Inl resp \<Rightarrow> (resp, w)
         | Inr c \<Rightarrow> next now (r\<lparr>ctx_claims := Some c\<rparr>) w)) \<and>
   (\<forall>next r w1 w2.
      (\<exists>resp. JWTAuth secret next now r w1 = (resp, w1) \<and>
              JWTAuth secret next now r w2 = (resp, w2)) \<or>
      (\<exists>c. JWTAuth secret next now r w1 = next now (r\<lparr>ctx_claims := Some c\<rparr>) w1 \<and>
           JWTAuth secret next now r w2 = next now (r\<lparr>ctx_claims := Some c\<rparr>) w2)) \<and>
   (jwt_SignedString t secret = Inr tok \<and> Validate now (TokenClaims t) = None \<and>
    Authorization rq = ''Bearer '' @ tok \<and> IsTokenBlacklisted w now tok = (True, None) \<longrightarrow>
      (\<forall>next. JWTAuth secret next now rq w =
         next now (rq\<lparr>ctx_claims :=
            Some \<lparr>ClaimsUserID = getString (TokenClaims t) ''user_id'',
                  ClaimsEmail = getString (TokenClaims t) ''email''\<rparr>\<rparr>) w) \<and>
      (\<forall>cfg. JWTSecret cfg = secret \<and> ReqMethod rq = ''POST'' \<longrightarrow>
         fst (JWTAuth (JWTSecret cfg) (AuthHandler_Logout cfg) now rq w) =
           (StatusOK, MessageBody ''logged out successfully'')) \<and>
      (\<forall>cfg rl. JWTSecret cfg = secret \<and> ReqMethod rq = ''POST'' \<and>
         fst (Middleware_check rl now (RemoteAddr rq)) \<longrightarrow>
         fst (route_logout cfg now rq (rl, w)) =
           (StatusOK, MessageBody ''logged out successfully'')))"
proof (intro conjI)
  show "\<exists>d. \<forall>next r w. Authorization r = hdr \<longrightarrow>
      JWTAuth secret next now r w =
        (case d of Inl resp \<Rightarrow> (resp, w)
         | Inr c \<Rightarrow> next now (r\<lparr>ctx_claims := Some c\<rparr>) w)"
    by (rule JWTAuth_decision)
next
  show "\<forall>next r w1 w2.
      (\<exists>resp. JWTAuth secret next now r w1 = (resp, w1) \<and>
              JWTAuth secret next now r w2 = (resp, w2)) \<or>
      (\<exists>c. JWTAuth secret next now r w1 = next now (r\<lparr>ctx_claims := Some c\<rparr>) w1 \<and>
           JWTAuth secret next now r w2 = next now (r\<lparr>ctx_claims := Some c\<rparr>) w2)"
  proof (intro allI)
    fix "next" :: Handler and r :: Request and w1 w2 :: world
    from JWTAuth_decision [of "Authorization r" secret now] obtain d where
      d: "\<And>next' r' w'. Authorization r' = Authorization r \<Longrightarrow>
        JWTAuth secret next' now r' w' =
          (case d of Inl resp \<Rightarrow> (resp, w')
           | Inr c \<Rightarrow> next' now (r'\<lparr>ctx_claims := Some c\<rparr>) w')"
      by blast
    show "(\<exists>resp. JWTAuth secret next now r w1 = (resp, w1) \<and>
              JWTAuth secret next now r w2 = (resp, w2)) \<or>
      (\<exists>c. JWTAuth secret next now r w1 = next now (r\<lparr>ctx_claims := Some c\<rparr>) w1 \<and>
           JWTAuth secret next now r w2 = next now (r\<lparr>ctx_claims := Some c\<rparr>) w2)"
      by (cases d) (auto simp add: d)
  qed
next
  show "jwt_SignedString t secret = Inr tok \<and> Validate now (TokenClaims t) = None \<and>
    Authorization rq = ''Bearer '' @ tok \<and> IsTokenBlacklisted w now tok = (True, None) \<longrightarrow>
      (\<forall>next. JWTAuth secret next now rq w =
         next now (rq\<lparr>ctx_claims :=
            Some \<lparr>ClaimsUserID = getString (TokenClaims t) ''user_id'',
                  ClaimsEmail = getString (TokenClaims t) ''email''\<rparr>\<rparr>) w) \<and>
      (\<forall>cfg. JWTSecret cfg = secret \<and> ReqMethod rq = ''POST'' \<longrightarrow>
         fst (JWTAuth (JWTSecret cfg) (AuthHandler_Logout cfg) now rq w) =
           (StatusOK, MessageBody ''logged out successfully'')) \<and>
      (\<forall>cfg rl. JWTSecret cfg = secret \<and> ReqMethod rq = ''POST'' \<and>
         fst (Middleware_check rl now (RemoteAddr rq)) \<longrightarrow>
         fst (route_logout cfg now rq (rl, w)) =
           (StatusOK, MessageBody ''logged out successfully''))"
  proof (intro impI conjI allI)
    fix "next" :: Handler
    assume a: "jwt_SignedString t secret = Inr tok \<and> Validate now (TokenClaims t) = None \<and>
      Authorization rq = ''Bearer '' @ tok \<and> IsTokenBlacklisted w now tok = (True, None)"
    then show "JWTAuth secret next now rq w =
         next now (rq\<lparr>ctx_claims :=
            Some \<lparr>ClaimsUserID = getString (TokenClaims t) ''user_id'',
                  ClaimsEmail = getString (TokenClaims t) ''email''\<rparr>\<rparr>) w"
      by (intro JWTAuth_signed) blast+
  next
    fix cfg :: Config
    assume a: "jwt_SignedString t secret = Inr tok \<and> Validate now (TokenClaims t) = None \<and>
      Authorization rq = ''Bearer '' @ tok \<and> IsTokenBlacklisted w now tok = (True, None)"
      and b: "JWTSecret cfg = secret \<and> ReqMethod rq = ''POST''"
    have "JWTAuth secret (AuthHandler_Logout cfg) now rq w =
         AuthHandler_Logout cfg now (rq\<lparr>ctx_claims :=
            Some \<lparr>ClaimsUserID = getString (TokenClaims t) ''user_id'',
                  ClaimsEmail = getString (TokenClaims t) ''email''\<rparr>\<rparr>) w"
      using a by (intro JWTAuth_signed) blast+
    then show "fst (JWTAuth (JWTSecret cfg) (AuthHandler_Logout cfg) now rq w) =
           (StatusOK, MessageBody ''logged out successfully'')"
      using b by (simp add: Logout_response)
  next
    fix cfg :: Config and rl :: RateLimiter
    assume a: "jwt_SignedString t secret = Inr tok \<and> Validate now (TokenClaims t) = None \<and>
      Authorization rq = ''Bearer '' @ tok \<and> IsTokenBlacklisted w now tok = (True, None)"
      and b: "JWTSecret cfg = secret \<and> ReqMethod rq = ''POST'' \<and>
         fst (Middleware_check rl now (RemoteAddr rq))"
    have "JWTAuth secret (AuthHandler_Logout cfg) now rq w =
         AuthHandler_Logout cfg now (rq\<lparr>ctx_claims :=
            Some \<lparr>ClaimsUserID = getString (TokenClaims t) ''user_id'',
                  ClaimsEmail = getString (TokenClaims t) ''email''\<rparr>\<rparr>) w"
      using a by (intro JWTAuth_signed) blast+
    then have "fst (JWTAuth (JWTSecret cfg) (AuthHandler_Logout cfg) now rq w) =
           (StatusOK, MessageBody ''logged out successfully'')"
      using b by (simp add: Logout_response)
    then show "fst (route_logout cfg now rq (rl, w)) =
           (StatusOK, MessageBody ''logged out successfully'')"
      using b by (simp add: route_logout_def Middleware_admitted)
  qed
qed

theorem jwtauth_does_not_consult_blacklist_witness:
  "let cfg = \<lparr>JWTSecret = ''k'', JWTExpiry = 15 * Minute\<rparr>;
       t = jwt_NewWithClaims SigningMethodHS256
             [(''user_id'', JString ''u1''), (''email'', JString ''a@b.com''),
              (''type'', JString ''access''), (''exp'', JNumber 900)];
       tok = projr (jwt_SignedString t ''k'');
       w1 = snd (BlacklistToken (fresh_world enc_nat) 0 tok (15 * Minute));
       rq = \<lparr>ReqMethod = ''POST'', Authorization = ''Bearer '' @ tok,
             RemoteAddr = ''10.0.0.1:4000'', Body = None, ctx_claims = None\<rparr>;
       rv = \<lparr>ReqMethod = ''POST'', Authorization = [], RemoteAddr = ''10.0.0.1:4000'',
             Body = Some [(''token'', tok)], ctx_claims = None\<rparr>
   in IsTokenBlacklisted w1 Minute tok = (True, None) \<and>
      fst (AuthHandler_ValidateToken cfg Minute rv w1) =
        (StatusOK, TokenValidationResponse False [] []) \<and>
      fst (JWTAuth ''k'' (AuthHandler_Logout cfg) Minute rq w1) =
        (StatusOK, MessageBody ''logged out successfully'') \<and>
      fst (JWTAuth ''k'' (AuthHandler_Logout cfg) Minute rq (fresh_world enc_nat)) =
        (StatusOK, MessageBody ''logged out successfully'') \<and>
      fst (route_logout cfg Minute rq (NewRateLimiter 60 Minute, w1)) =
        (StatusOK, MessageBody ''logged out successfully'')"
proof -
  define cfg where "cfg = \<lparr>JWTSecret = ''k'', JWTExpiry = 15 * Minute\<rparr>"
  define t where "t = jwt_NewWithClaims SigningMethodHS256
             [(''user_id'', JString ''u1''), (''email'', JString ''a@b.com''),
              (''type'', JString ''access''), (''exp'', JNumber 900)]"
  define tok where "tok = projr (jwt_SignedString t ''k'')"
  define w1 where "w1 = snd (BlacklistToken (fresh_world enc_nat) 0 tok (15 * Minute))"
  define rq where "rq = \<lparr>ReqMethod = ''POST'', Authorization = ''Bearer '' @ tok,
             RemoteAddr = ''10.0.0.1:4000'', Body = None, ctx_claims = None\<rparr>"
  define rv where "rv = \<lparr>ReqMethod = ''POST'', Authorization = [], RemoteAddr = ''10.0.0.1:4000'',
             Body = Some [(''token'', tok)], ctx_claims = None\<rparr>"
  have sg: "jwt_SignedString t ''k'' = Inr tok"
    unfolding tok_def
    using SignedString_projr [of t "''k''"] by (simp add: t_def jwt_NewWithClaims_def)
  have ne: "tok \<noteq> []" using sg by (rule SignedString_not_Nil)
  have va: "Validate Minute (TokenClaims t) = None"
    by (simp add: t_def jwt_NewWithClaims_def Validate_def verifyExpiresAt_def
          verifyNotBefore_def Before_def Minute_def Second_def)
  have ib: "IsTokenBlacklisted w1 Minute tok = (True, None)"
    by (simp add: w1_def BlacklistToken_up IsTokenBlacklisted_up fresh_world_def redis_live_def
          Minute_def Second_def)
  have hyp: "jwt_SignedString t ''k'' = Inr tok \<and> Validate Minute (TokenClaims t) = None \<and>
    Authorization rq = ''Bearer '' @ tok \<and> IsTokenBlacklisted w1 Minute tok = (True, None)"
    using sg va ib by (simp add: rq_def)
  note inst = jwtauth_does_not_consult_blacklist [where secret = "''k''" and now = Minute
      and t = t and tok = tok and rq = rq and w = w1 and hdr = "Authorization rq"]
  have a3: "fst (JWTAuth ''k'' (AuthHandler_Logout cfg) Minute rq w1) =
        (StatusOK, MessageBody ''logged out successfully'')"
    using inst [THEN conjunct2, THEN conjunct2, rule_format, OF hyp, THEN conjunct2,
        THEN conjunct1, rule_format, of cfg]
    by (simp add: cfg_def rq_def)
  have a5: "fst (route_logout cfg Minute rq (NewRateLimiter 60 Minute, w1)) =
        (StatusOK, MessageBody ''logged out successfully'')"
    using inst [THEN conjunct2, THEN conjunct2, rule_format, OF hyp, THEN conjunct2,
        THEN conjunct2, rule_format, of cfg "NewRateLimiter 60 Minute"]
    by (simp add: cfg_def rq_def Middleware_check_admit NewRateLimiter_def requests_at_def)
  have a2: "fst (AuthHandler_ValidateToken cfg Minute rv w1) =
        (StatusOK, TokenValidationResponse False [] [])"
    by (rule ValidateToken_blacklisted [OF _ _ _ ne ib, where req = "[(''token'', tok)]"])
       (simp_all add: rv_def json_field_def)
  have a4: "fst (JWTAuth ''k'' (AuthHandler_Logout cfg) Minute rq (fresh_world enc_nat)) =
        (StatusOK, MessageBody ''logged out successfully'')"
  proof -
    from inst [THEN conjunct2, THEN conjunct1, rule_format,
        of "AuthHandler_Logout cfg" rq w1 "fresh_world enc_nat"]
    show ?thesis
    proof
      assume "\<exists>resp. JWTAuth ''k'' (AuthHandler_Logout cfg) Minute rq w1 = (resp, w1) \<and>
        JWTAuth ''k'' (AuthHandler_Logout cfg) Minute rq (fresh_world enc_nat) =
          (resp, fresh_world enc_nat)"
      then show ?thesis using a3 by auto
    next
      assume "\<exists>c. JWTAuth ''k'' (AuthHandler_Logout cfg) Minute rq w1 =
          AuthHandler_Logout cfg Minute (rq\<lparr>ctx_claims := Some c\<rparr>) w1 \<and>
        JWTAuth ''k'' (AuthHandler_Logout cfg) Minute rq (fresh_world enc_nat) =
          AuthHandler_Logout cfg Minute (rq\<lparr>ctx_claims := Some c\<rparr>) (fresh_world enc_nat)"
      then show ?thesis by (auto simp add: Logout_response rq_def)
    qed
  qed
  from ib a2 a3 a4 a5 show ?thesis
    unfolding Let_def cfg_def [symmetric] t_def [symmetric] tok_def [symmetric]
      w1_def [symmetric] rq_def [symmetric] rv_def [symmetric]
    by simp
qed

end
